theory Spec2Isabelle
  imports Complex_Main "HOL-Library.Sublist"
begin

section \<open>Python exceptions\<close>

text \<open>
  The exceptions that the notebooks' own statements can raise, and \<open>OtherError\<close> for
  whatever else a library call raises (a botocore \<open>ClientError\<close>, a timeout, ...).
\<close>

datatype exn = ValueError | IndexError | KeyError | TypeError | AttributeError | AssertionError
  | OtherError string

section \<open>The distillation loss (knowledge-distillation notebook, \<open>DistillationTrainer\<close>)\<close>

subsection \<open>Tensors\<close>

text \<open>
  A tensor is its \<open>size()\<close> and its elements in row-major order. The elements are real
  numbers: the model is the arithmetic the code writes down, not the rounding or the
  overflow of its floats. What the code's floating-point arithmetic gives where the
  reals give nothing, a quotient by zero, is kept apart: a scalar is a real number or
  \<open>nan\<close>, and an operation on \<open>nan\<close> gives \<open>nan\<close>.
\<close>

datatype scalar = Value real | NaN

fun scalar_times :: "scalar \<Rightarrow> scalar \<Rightarrow> scalar" where
  "scalar_times (Value x) (Value y) = Value (x * y)"
| "scalar_times _ _ = NaN"

fun scalar_plus :: "scalar \<Rightarrow> scalar \<Rightarrow> scalar" where
  "scalar_plus (Value x) (Value y) = Value (x + y)"
| "scalar_plus _ _ = NaN"

record tensor =
  shape :: "nat list"
  elems :: "real list"

definition wf_tensor :: "tensor \<Rightarrow> bool" where
  "wf_tensor t = (length (elems t) = prod_list (shape t))"

text \<open>
  \<open>logits / temperature\<close>: a tensor divided by a scalar, element by element. Divided
  by zero, every element is \<open>inf\<close>, \<open>-inf\<close> or \<open>nan\<close>: the quotient is then no tensor
  of real numbers (\<open>None\<close>), unless the tensor has no element at all.
\<close>

definition tensor_div :: "tensor \<Rightarrow> real \<Rightarrow> tensor option" where
  "tensor_div t c =
     (if c = 0 \<and> elems t \<noteq> [] then None
      else Some (t\<lparr>elems := map (\<lambda>x. x / c) (elems t)\<rparr>))"

function chunks :: "nat \<Rightarrow> 'a list \<Rightarrow> 'a list list" where
  "chunks n xs = (if n = 0 \<or> xs = [] then [] else take n xs # chunks n (drop n xs))"
  by pat_completeness auto
termination
  by (relation "measure (\<lambda>(n, xs). length xs)") auto

declare chunks.simps [simp del]

text \<open>The vectors along the last dimension (\<open>dim=-1\<close>), in order.\<close>

definition last_dim :: "tensor \<Rightarrow> nat" where
  "last_dim t = (case shape t of [] \<Rightarrow> 1 | _ # _ \<Rightarrow> last (shape t))"

definition rows :: "tensor \<Rightarrow> real list list" where
  "rows t = chunks (last_dim t) (elems t)"

definition softmax_vec :: "real list \<Rightarrow> real list" where
  "softmax_vec z = map (\<lambda>x. exp x / (\<Sum>y\<leftarrow>z. exp y)) z"

definition log_softmax_vec :: "real list \<Rightarrow> real list" where
  "log_softmax_vec z = map (\<lambda>x. x - ln (\<Sum>y\<leftarrow>z. exp y)) z"

text \<open>\<open>F.softmax(t, dim=-1)\<close> and \<open>F.log_softmax(t, dim=-1)\<close>.\<close>

definition softmax :: "tensor \<Rightarrow> tensor" where
  "softmax t = t\<lparr>elems := concat (map softmax_vec (rows t))\<rparr>"

definition log_softmax :: "tensor \<Rightarrow> tensor" where
  "log_softmax t = t\<lparr>elems := concat (map log_softmax_vec (rows t))\<rparr>"

text \<open>
  \<open>nn.KLDivLoss(reduction="batchmean")(input, target)\<close>: the pointwise terms
  \<open>target * (log target - input)\<close>, summed over all elements and divided by
  \<open>input.size(0)\<close> (a tensor of no dimension is only summed). For an empty batch,
  \<open>input.size(0) = 0\<close>, the sum over no element is \<open>0\<close> and the quotient \<open>0 / 0\<close>
  is \<open>nan\<close>.
\<close>

definition KLDivLoss_batchmean :: "tensor \<Rightarrow> tensor \<Rightarrow> scalar" where
  "KLDivLoss_batchmean inp target =
     (let s = (\<Sum>(x, y)\<leftarrow>zip (elems inp) (elems target). y * (ln y - x))
      in case shape inp of [] \<Rightarrow> Value s
         | b # _ \<Rightarrow> if b = 0 then NaN else Value (s / real b))"

subsection \<open>\<open>DistillationTrainer.compute_loss\<close>\<close>

record model_output =
  loss :: real
  logits :: tensor

record distillation_args =
  alpha :: real
  temperature :: real

record 'i trainer =
  args :: distillation_args
  teacher :: "'i \<Rightarrow> model_output"

datatype loss_result = Loss scalar | LossWithOutputs scalar model_output

text \<open>
  \<^verbatim>\<open>
  def compute_loss(self, model, inputs, return_outputs=False):
      outputs_student = model(**inputs)
      student_loss = outputs_student.loss
      with torch.no_grad():
          outputs_teacher = self.teacher(**inputs)
      assert outputs_student.logits.size() == outputs_teacher.logits.size()
      loss_function = nn.KLDivLoss(reduction="batchmean")
      loss_logits = (
          loss_function(
              F.log_softmax(outputs_student.logits / self.args.temperature, dim=-1),
              F.softmax(outputs_teacher.logits / self.args.temperature, dim=-1),
          )
          * (self.args.temperature ** 2)
      )
      loss = self.args.alpha * student_loss + (1.0 - self.args.alpha) * loss_logits
      return (loss, outputs_student) if return_outputs else loss
  \<close>
  The student and the teacher are functions from the batch to their outputs; the batch
  carries its labels, so the student's output has a loss. Where the logits divided by
  the temperature are no real numbers, every softmax over them is \<open>nan\<close>, and \<open>nan\<close>
  stays \<open>nan\<close> through the sum, the products and the weighted sum: the loss is \<open>nan\<close>.
\<close>

definition compute_loss ::
  "'i trainer \<Rightarrow> ('i \<Rightarrow> model_output) \<Rightarrow> 'i \<Rightarrow> bool \<Rightarrow> exn + loss_result" where
  "compute_loss self model inputs return_outputs =
     (let outputs_student = model inputs;
          student_loss = loss outputs_student;
          outputs_teacher = teacher self inputs
      in if shape (logits outputs_student) \<noteq> shape (logits outputs_teacher)
         then Inl AssertionError
         else
           let loss_logits =
                 (case (tensor_div (logits outputs_student) (temperature (args self)),
                        tensor_div (logits outputs_teacher) (temperature (args self))) of
                    (Some student_logits, Some teacher_logits) \<Rightarrow>
                      scalar_times
                        (KLDivLoss_batchmean (log_softmax student_logits) (softmax teacher_logits))
                        (Value ((temperature (args self))\<^sup>2))
                  | _ \<Rightarrow> NaN);
               l = scalar_plus (Value (alpha (args self) * student_loss))
                     (scalar_times (Value (1 - alpha (args self))) loss_logits)
           in Inr (if return_outputs then LossWithOutputs l outputs_student else Loss l))"

subsection \<open>The loss as the text states it\<close>

text \<open>
  Written from the formulas of the notebook's introduction, not from the code:
  \<open>D_KL(p, q) = \<Sum>i. p i * log (p i / q i)\<close>, the probabilities softened by the
  temperature, \<open>L_KD = T\<^sup>2 * D_KL\<close> and
  \<open>L_student = \<alpha> * L_CE + (1 - \<alpha>) * L_KD\<close>. Over a batch the divergence is
  the mean of the examples' divergences.
\<close>

definition kl_divergence :: "real list \<Rightarrow> real list \<Rightarrow> real" where
  "kl_divergence p q = (\<Sum>(pi, qi)\<leftarrow>zip p q. pi * ln (pi / qi))"

definition softened :: "real list list \<Rightarrow> real \<Rightarrow> real list list" where
  "softened zs T = map (\<lambda>z. softmax_vec (map (\<lambda>x. x / T) z)) zs"

definition mean_kl_divergence :: "real list list \<Rightarrow> real list list \<Rightarrow> real" where
  "mean_kl_divergence ps qs =
     (\<Sum>(p, q)\<leftarrow>zip ps qs. kl_divergence p q) / real (length ps)"

definition textbook_loss ::
  "real \<Rightarrow> real \<Rightarrow> real \<Rightarrow> real list list \<Rightarrow> real list list \<Rightarrow> real" where
  "textbook_loss a T L_CE teacher_logits student_logits =
     a * L_CE
     + (1 - a) * T\<^sup>2 * mean_kl_divergence (softened teacher_logits T) (softened student_logits T)"

section \<open>The notebooks: values, library calls and the history of a run\<close>

subsection \<open>Python values\<close>

text \<open>
  The values the notebooks build and pass around: JSON-like data, and \<open>PyObj\<close> for an
  object of a library class (its class name and its attributes). A dictionary keeps
  its items in insertion order.
\<close>

datatype pyval = PyNone | PyBool bool | PyInt int | PyFloat real | PyStr string
  | PyList "pyval list" | PyDict "(string \<times> pyval) list"
  | PyObj string "(string \<times> pyval) list"

type_synonym kwargs = "(string \<times> pyval) list"

text \<open>\<open>d[k]\<close> on a dictionary, \<open>xs[i]\<close> on a list, \<open>o.a\<close> on an object.\<close>

fun getitem :: "pyval \<Rightarrow> string \<Rightarrow> exn + pyval" where
  "getitem (PyDict kvs) k = (case map_of kvs k of None \<Rightarrow> Inl KeyError | Some v \<Rightarrow> Inr v)"
| "getitem _ k = Inl TypeError"

definition index :: "'a list \<Rightarrow> nat \<Rightarrow> exn + 'a" where
  "index xs i = (if i < length xs then Inr (xs ! i) else Inl IndexError)"

fun getindex :: "pyval \<Rightarrow> nat \<Rightarrow> exn + pyval" where
  "getindex (PyList xs) i = index xs i"
| "getindex _ i = Inl TypeError"

fun getattr :: "pyval \<Rightarrow> string \<Rightarrow> exn + pyval" where
  "getattr (PyObj c attrs) a = (case map_of attrs a of None \<Rightarrow> Inl AttributeError | Some v \<Rightarrow> Inr v)"
| "getattr _ a = Inl AttributeError"

text \<open>
  \<open>s.split(sep)\<close> for a separator of one character: the pieces between the
  occurrences of \<open>sep\<close>, so one piece more than there are occurrences.
\<close>

fun split :: "char \<Rightarrow> string \<Rightarrow> string list" where
  "split sep [] = [[]]"
| "split sep (c # cs) =
     (if c = sep then [] # split sep cs
      else case split sep cs of [] \<Rightarrow> [[c]] | w # ws \<Rightarrow> (c # w) # ws)"

fun str_split :: "pyval \<Rightarrow> char \<Rightarrow> exn + string list" where
  "str_split (PyStr s) sep = Inr (split sep s)"
| "str_split _ sep = Inl AttributeError"

subsection \<open>Predictors\<close>

text \<open>
  What \<open>deploy\<close> returns. The notebooks read \<open>predictor.endpoint_name\<close> and
  \<open>predictor.sagemaker_session.boto_region_name\<close>, both strings.
\<close>

record session =
  boto_region_name :: string

record predictor =
  endpoint_name :: string
  sagemaker_session :: session

subsection \<open>Operations on the outside world\<close>

text \<open>
  \<open>Call f args kwargs\<close> is a call of a library function, constructor or method (the
  object first among \<open>args\<close>); the calls on a predictor, \<open>deploy\<close>, \<open>print\<close>, a
  shell line (\<open>!cmd\<close>) and the thread pool's \<open>submit\<close> have constructors of their own.
  \<open>WorkerPredict\<close> is a prediction that a worker thread of the pool runs.
\<close>

datatype op =
    Call string "pyval list" kwargs
  | Deploy pyval "pyval list" kwargs
  | Predict predictor pyval
  | DeleteModel predictor
  | DeleteEndpoint predictor
  | Print "pyval list"
  | Shell string
  | Submit predictor pyval
  | WorkerPredict predictor pyval

datatype outcome = Returned | Created predictor | Raised exn

type_synonym event = "op \<times> outcome"
type_synonym history = "event list"

text \<open>
  The libraries and the services behind them are not part of the repository. A run
  is taken against any behaviour of theirs: what a call returns or raises is a function
  of the call and of everything that happened before it.
\<close>

record sdk =
  sdk_call :: "history \<Rightarrow> string \<Rightarrow> pyval list \<Rightarrow> kwargs \<Rightarrow> exn + pyval"
  sdk_deploy :: "history \<Rightarrow> pyval \<Rightarrow> pyval list \<Rightarrow> kwargs \<Rightarrow> exn + predictor"
  sdk_predict :: "history \<Rightarrow> predictor \<Rightarrow> pyval \<Rightarrow> exn + pyval"
  sdk_delete_model :: "history \<Rightarrow> predictor \<Rightarrow> exn + unit"
  sdk_delete_endpoint :: "history \<Rightarrow> predictor \<Rightarrow> exn + unit"
  sdk_uuid4 :: "history \<Rightarrow> string"
  sdk_cpu_count :: "history \<Rightarrow> nat option"

subsection \<open>Statements\<close>

text \<open>
  A piece of notebook code takes the history so far and gives its value, or the
  exception it raised, with the history extended by what it did.
\<close>

type_synonym 'a prog = "history \<Rightarrow> (exn + 'a) \<times> history"

definition ret :: "'a \<Rightarrow> 'a prog" where
  "ret x = (\<lambda>h. (Inr x, h))"

definition raise :: "exn \<Rightarrow> 'a prog" where
  "raise e = (\<lambda>h. (Inl e, h))"

definition lift :: "exn + 'a \<Rightarrow> 'a prog" where
  "lift r = (\<lambda>h. (r, h))"

definition bind :: "'a prog \<Rightarrow> ('a \<Rightarrow> 'b prog) \<Rightarrow> 'b prog" where
  "bind m f = (\<lambda>h. case m h of (Inl e, h') \<Rightarrow> (Inl e, h') | (Inr x, h') \<Rightarrow> f x h')"

definition invoke :: "op \<Rightarrow> (history \<Rightarrow> exn + 'a) \<Rightarrow> 'a prog" where
  "invoke c f = (\<lambda>h. case f h of
       Inl e \<Rightarrow> (Inl e, h @ [(c, Raised e)])
     | Inr x \<Rightarrow> (Inr x, h @ [(c, Returned)]))"

text \<open>\<open>try: body except exc: handler\<close>, for one of the exceptions of \<open>exn\<close>.\<close>

definition try_except :: "'a prog \<Rightarrow> exn \<Rightarrow> 'a prog \<Rightarrow> 'a prog" where
  "try_except body exc handler = (\<lambda>h. case body h of
       (Inl e, h') \<Rightarrow> if e = exc then handler h' else (Inl e, h')
     | (Inr x, h') \<Rightarrow> (Inr x, h'))"

text \<open>\<open>for i in range(n): body\<close>, the body threading what it updates.\<close>

fun for_range :: "nat \<Rightarrow> ('s \<Rightarrow> 's prog) \<Rightarrow> 's \<Rightarrow> 's prog" where
  "for_range 0 body s = ret s"
| "for_range (Suc n) body s = bind (body s) (for_range n body)"

text \<open>
  An expression statement that only names a value, such as a bound method that is
  not called: the value is dropped and nothing happens.
\<close>

definition discard :: "'a \<Rightarrow> unit prog" where
  "discard v = ret ()"

subsection \<open>The calls as statements\<close>

definition call :: "sdk \<Rightarrow> string \<Rightarrow> pyval list \<Rightarrow> kwargs \<Rightarrow> pyval prog" where
  "call s f as kw = invoke (Call f as kw) (\<lambda>h. sdk_call s h f as kw)"

definition deploy :: "sdk \<Rightarrow> pyval \<Rightarrow> pyval list \<Rightarrow> kwargs \<Rightarrow> predictor prog" where
  "deploy s model as kw = (\<lambda>h. case sdk_deploy s h model as kw of
       Inl e \<Rightarrow> (Inl e, h @ [(Deploy model as kw, Raised e)])
     | Inr p \<Rightarrow> (Inr p, h @ [(Deploy model as kw, Created p)]))"

definition predict :: "sdk \<Rightarrow> predictor \<Rightarrow> pyval \<Rightarrow> pyval prog" where
  "predict s p d = invoke (Predict p d) (\<lambda>h. sdk_predict s h p d)"

definition delete_model :: "sdk \<Rightarrow> predictor \<Rightarrow> unit prog" where
  "delete_model s p = invoke (DeleteModel p) (\<lambda>h. sdk_delete_model s h p)"

definition delete_endpoint :: "sdk \<Rightarrow> predictor \<Rightarrow> unit prog" where
  "delete_endpoint s p = invoke (DeleteEndpoint p) (\<lambda>h. sdk_delete_endpoint s h p)"

definition uuid4 :: "sdk \<Rightarrow> string prog" where
  "uuid4 s = invoke (Call ''uuid4'' [] []) (\<lambda>h. Inr (sdk_uuid4 s h))"

definition cpu_count :: "sdk \<Rightarrow> nat option prog" where
  "cpu_count s = invoke (Call ''os.cpu_count'' [] []) (\<lambda>h. Inr (sdk_cpu_count s h))"

definition print :: "pyval list \<Rightarrow> unit prog" where
  "print pieces = invoke (Print pieces) (\<lambda>h. Inr ())"

definition shell :: "string \<Rightarrow> unit prog" where
  "shell cmd = invoke (Shell cmd) (\<lambda>h. Inr ())"

section \<open>The autoscaling notebook (\<open>src/unnamed/part_000\<close>)\<close>

text \<open>
  Each code cell is a function of the variables it reads, giving the variables it
  binds. The cell that only evaluates \<open>sagemaker.__version__\<close> does nothing and is
  left out.
\<close>

definition install_sagemaker :: "string \<Rightarrow> unit prog" where
  "install_sagemaker version =
     shell (''pip install '' @ [CHR 0x22] @ ''sagemaker>='' @ version @ [CHR 0x22] @ '' --upgrade'')"

definition finbert_hub :: kwargs where
  "finbert_hub =
     [(''HF_MODEL_ID'', PyStr ''yiyanghkust/finbert-tone''),
      (''HF_TASK'', PyStr ''text-classification'')]"

text \<open>
  \<^verbatim>\<open>
  role = sagemaker.get_execution_role()
  hub = {...}
  endpoint_name=f'{hub["HF_MODEL_ID"].split("/")[1]}-{str(uuid4())}'
  huggingface_model = HuggingFaceModel(env=hub, role=role, name=endpoint_name,
     transformers_version="4.11", pytorch_version="1.9", py_version="py38")
  \<close>
  The f-string evaluates its fields from left to right: the split and the index
  come before \<open>uuid4()\<close>.
\<close>

definition create_model :: "sdk \<Rightarrow> kwargs \<Rightarrow> (string \<times> pyval) prog" where
  "create_model s hub =
     bind (call s ''sagemaker.get_execution_role'' [] []) (\<lambda>role.
     bind (lift (getitem (PyDict hub) ''HF_MODEL_ID'')) (\<lambda>model_id.
     bind (lift (str_split model_id CHR ''/'')) (\<lambda>parts.
     bind (lift (index parts 1)) (\<lambda>part.
     bind (uuid4 s) (\<lambda>u.
     bind (ret (part @ ''-'' @ u)) (\<lambda>endpoint_name.
     bind (call s ''HuggingFaceModel'' []
             [(''env'', PyDict hub), (''role'', role), (''name'', PyStr endpoint_name),
              (''transformers_version'', PyStr ''4.11''), (''pytorch_version'', PyStr ''1.9''),
              (''py_version'', PyStr ''py38'')]) (\<lambda>huggingface_model.
     ret (endpoint_name, huggingface_model))))))))"

text \<open>
  \<^verbatim>\<open>
  predictor = huggingface_model.deploy(initial_instance_count=1, instance_type="ml.c5.large")
  aws_region = predictor.sagemaker_session.boto_region_name
  \<close>
\<close>

definition deploy_endpoint :: "sdk \<Rightarrow> pyval \<Rightarrow> (predictor \<times> string) prog" where
  "deploy_endpoint s huggingface_model =
     bind (deploy s huggingface_model []
             [(''initial_instance_count'', PyInt 1), (''instance_type'', PyStr ''ml.c5.large'')])
       (\<lambda>predictor.
     ret (predictor, boto_region_name (sagemaker_session predictor)))"

definition finbert_data :: pyval where
  "finbert_data =
     PyDict [(''inputs'',
       PyStr ''There is a shortage of capital for project SageMaker. We need extra financing'')]"

definition example_request :: "sdk \<Rightarrow> predictor \<Rightarrow> pyval prog" where
  "example_request s predictor =
     bind (ret finbert_data) (\<lambda>data.
     bind (predict s predictor data) (\<lambda>_.
     ret data))"

text \<open>\<open>for i in range(500): predictor.predict(data)\<close>\<close>

definition repeat_request :: "sdk \<Rightarrow> nat \<Rightarrow> predictor \<Rightarrow> pyval \<Rightarrow> unit prog" where
  "repeat_request s n predictor data =
     for_range n (\<lambda>_. bind (predict s predictor data) (\<lambda>_. ret ())) ()"

text \<open>
  The dashboard links are f-strings over \<open>aws_region\<close> and
  \<open>predictor.endpoint_name\<close>, both strings, so each is a concatenation. The endpoint
  name inside the graph's metric is a literal of the source.
\<close>

definition stale_endpoint :: string where
  "stale_endpoint = ''finbert-tone-73d26f97-9376-4b3f-9334-a2-2021-10-29-12-18-52-365''"

definition latency_dashboard_url :: "string \<Rightarrow> predictor \<Rightarrow> string" where
  "latency_dashboard_url aws_region predictor =
     ''https://console.aws.amazon.com/cloudwatch/home?region='' @ aws_region
     @ ''#metricsV2:graph=~(metrics~(~(~'' @ [CHR 0x27] @ ''AWS*2fSageMaker~'' @ [CHR 0x27]
     @ ''ModelLatency~'' @ [CHR 0x27] @ ''EndpointName~'' @ [CHR 0x27] @ stale_endpoint
     @ ''~'' @ [CHR 0x27] @ ''VariantName~'' @ [CHR 0x27] @ ''AllTraffic))~view~'' @ [CHR 0x27]
     @ ''timeSeries~stacked~false~start~'' @ [CHR 0x27] @ ''-PT15M~end~'' @ [CHR 0x27]
     @ ''P0D~region~'' @ [CHR 0x27] @ aws_region
     @ ''~stat~'' @ [CHR 0x27] @ ''SampleCount~period~30);query=~'' @ [CHR 0x27]
     @ ''*7bAWS*2fSageMaker*2cEndpointName*2cVariantName*7d*20'' @ endpoint_name predictor"

definition cpu_dashboard_url :: "string \<Rightarrow> predictor \<Rightarrow> string" where
  "cpu_dashboard_url aws_region predictor =
     ''https://console.aws.amazon.com/cloudwatch/home?region='' @ aws_region
     @ ''#metricsV2:graph=~(metrics~(~(~'' @ [CHR 0x27] @ ''*2faws*2fsagemaker*2fEndpoints~''
     @ [CHR 0x27] @ ''CPUUtilization~'' @ [CHR 0x27] @ ''EndpointName~'' @ [CHR 0x27]
     @ stale_endpoint @ ''~'' @ [CHR 0x27] @ ''VariantName~'' @ [CHR 0x27]
     @ ''AllTraffic))~view~'' @ [CHR 0x27] @ ''timeSeries~stacked~false~region~'' @ [CHR 0x27]
     @ aws_region
     @ ''~start~'' @ [CHR 0x27] @ ''-PT15M~end~'' @ [CHR 0x27] @ ''P0D~stat~'' @ [CHR 0x27]
     @ ''Average~period~60);query=~'' @ [CHR 0x27]
     @ ''*7b*2faws*2fsagemaker*2fEndpoints*2cEndpointName*2cVariantName*7d*20''
     @ stale_endpoint @ ''*20Endpoint*20'' @ endpoint_name predictor
     @ ''*20has*20Current*20Instance*20Count*3a*201*20With*20a*20desired*20instance*20count*20of*201''"

definition show_latency_dashboard :: "string \<Rightarrow> predictor \<Rightarrow> unit prog" where
  "show_latency_dashboard aws_region predictor =
     print [PyStr (latency_dashboard_url aws_region predictor)]"

definition show_cpu_dashboard :: "string \<Rightarrow> predictor \<Rightarrow> unit prog" where
  "show_cpu_dashboard aws_region predictor =
     print [PyStr (cpu_dashboard_url aws_region predictor)]"

text \<open>
  \<^verbatim>\<open>
  asg_client = boto3.client('application-autoscaling')
  resource_id=f"endpoint/{predictor.endpoint_name}/variant/AllTraffic"
  response = asg_client.register_scalable_target(
      ServiceNamespace='sagemaker', ResourceId=resource_id,
      ScalableDimension='sagemaker:variant:DesiredInstanceCount',
      MinCapacity=1, MaxCapacity=4)
  \<close>
\<close>

definition register_scalable_target :: "sdk \<Rightarrow> predictor \<Rightarrow> (pyval \<times> string) prog" where
  "register_scalable_target s predictor =
     bind (call s ''boto3.client'' [PyStr ''application-autoscaling''] []) (\<lambda>asg_client.
     bind (ret (''endpoint/'' @ endpoint_name predictor @ ''/variant/AllTraffic'')) (\<lambda>resource_id.
     bind (call s ''register_scalable_target'' [asg_client]
             [(''ServiceNamespace'', PyStr ''sagemaker''),
              (''ResourceId'', PyStr resource_id),
              (''ScalableDimension'', PyStr ''sagemaker:variant:DesiredInstanceCount''),
              (''MinCapacity'', PyInt 1),
              (''MaxCapacity'', PyInt 4)]) (\<lambda>response.
     ret (asg_client, resource_id))))"

text \<open>
  \<^verbatim>\<open>
  response = asg_client.put_scaling_policy(
      PolicyName=f'CPUUtil-ScalingPolicy-{predictor.endpoint_name}',
      ServiceNamespace='sagemaker', ResourceId=resource_id,
      ScalableDimension='sagemaker:variant:DesiredInstanceCount',
      PolicyType='TargetTrackingScaling',
      TargetTrackingScalingPolicyConfiguration={
          'TargetValue': 50.0,
          'CustomizedMetricSpecification': {
              'MetricName': 'CPUUtilization',
              'Namespace': '/aws/sagemaker/Endpoints',
              'Dimensions': [
                  {'Name': 'EndpointName', 'Value': predictor.endpoint_name },
                  {'Name': 'VariantName','Value': 'AllTraffic'}],
              'Statistic': 'Average',
              'Unit': 'Percent'},
          'ScaleInCooldown': 300,
          'ScaleOutCooldown': 100})
  \<close>
\<close>

definition put_scaling_policy :: "sdk \<Rightarrow> predictor \<Rightarrow> pyval \<Rightarrow> string \<Rightarrow> unit prog" where
  "put_scaling_policy s predictor asg_client resource_id =
     bind (call s ''put_scaling_policy'' [asg_client]
             [(''PolicyName'', PyStr (''CPUUtil-ScalingPolicy-'' @ endpoint_name predictor)),
              (''ServiceNamespace'', PyStr ''sagemaker''),
              (''ResourceId'', PyStr resource_id),
              (''ScalableDimension'', PyStr ''sagemaker:variant:DesiredInstanceCount''),
              (''PolicyType'', PyStr ''TargetTrackingScaling''),
              (''TargetTrackingScalingPolicyConfiguration'', PyDict
                [(''TargetValue'', PyFloat 50),
                 (''CustomizedMetricSpecification'', PyDict
                   [(''MetricName'', PyStr ''CPUUtilization''),
                    (''Namespace'', PyStr ''/aws/sagemaker/Endpoints''),
                    (''Dimensions'', PyList
                      [PyDict [(''Name'', PyStr ''EndpointName''),
                               (''Value'', PyStr (endpoint_name predictor))],
                       PyDict [(''Name'', PyStr ''VariantName''),
                               (''Value'', PyStr ''AllTraffic'')]]),
                    (''Statistic'', PyStr ''Average''),
                    (''Unit'', PyStr ''Percent'')]),
                 (''ScaleInCooldown'', PyInt 300),
                 (''ScaleOutCooldown'', PyInt 100)])]) (\<lambda>response.
     ret ())"

definition configure_autoscaling :: "sdk \<Rightarrow> predictor \<Rightarrow> unit prog" where
  "configure_autoscaling s predictor =
     bind (register_scalable_target s predictor) (\<lambda>(asg_client, resource_id).
     put_scaling_policy s predictor asg_client resource_id)"

subsection \<open>The load test\<close>

text \<open>
  \<^verbatim>\<open>
  workers = os.cpu_count() * 5
  requests = 200
  print(f"workers used for load test: {workers}")
  with ThreadPoolExecutor(max_workers=workers) as executor:
      for i in range(requests):
          executor.submit(predictor.predict, data)
  \<close>
  \<open>os.cpu_count()\<close> is \<open>None\<close> when the count cannot be determined, and
  \<open>None * 5\<close> is a \<open>TypeError\<close>; \<open>ThreadPoolExecutor\<close> raises \<open>ValueError\<close>
  for \<open>max_workers <= 0\<close>. \<open>submit\<close> queues a task and returns its future. Leaving
  the \<open>with\<close> block waits until the workers have run every queued task; what a task
  returns or raises stays in its future, which the notebook never reads. The workers
  run beside the main thread: the model takes the schedule in which the queue is run,
  in order, once everything is submitted.
\<close>

record executor =
  max_workers :: int
  work_queue :: "(predictor \<times> pyval) list"

definition ThreadPoolExecutor :: "int \<Rightarrow> executor prog" where
  "ThreadPoolExecutor workers =
     invoke (Call ''ThreadPoolExecutor'' [] [(''max_workers'', PyInt workers)])
       (\<lambda>h. if workers \<le> 0 then Inl ValueError
            else Inr \<lparr>max_workers = workers, work_queue = []\<rparr>)"

definition submit :: "predictor \<Rightarrow> pyval \<Rightarrow> executor \<Rightarrow> executor prog" where
  "submit p d ex =
     bind (invoke (Submit p d) (\<lambda>h. Inr ())) (\<lambda>_.
     ret (ex\<lparr>work_queue := work_queue ex @ [(p, d)]\<rparr>))"

fun run_tasks :: "sdk \<Rightarrow> (predictor \<times> pyval) list \<Rightarrow> unit prog" where
  "run_tasks s [] = ret ()"
| "run_tasks s ((p, d) # ts) =
     (\<lambda>h. run_tasks s ts
        (h @ [(WorkerPredict p d,
               case sdk_predict s h p d of Inl e \<Rightarrow> Raised e | Inr _ \<Rightarrow> Returned)]))"

definition shutdown :: "sdk \<Rightarrow> executor \<Rightarrow> unit prog" where
  "shutdown s ex = run_tasks s (work_queue ex)"

definition load_test :: "sdk \<Rightarrow> predictor \<Rightarrow> pyval \<Rightarrow> unit prog" where
  "load_test s predictor data =
     bind (cpu_count s) (\<lambda>n.
     bind (lift (case n of None \<Rightarrow> Inl TypeError | Some c \<Rightarrow> Inr (int c * 5))) (\<lambda>workers.
     bind (ret (200::nat)) (\<lambda>requests.
     bind (print [PyStr ''workers used for load test: '', PyInt workers]) (\<lambda>_.
     bind (ThreadPoolExecutor workers) (\<lambda>executor.
     bind (for_range requests (submit predictor data) executor) (\<lambda>executor.
     shutdown s executor))))))"

text \<open>
  \<^verbatim>\<open>
  bt_sm = boto3.client('sagemaker')
  response = bt_sm.describe_endpoint(EndpointName=predictor.endpoint_name)
  print(f"Endpoint {response['EndpointName']} has \nCurrent Instance Count: {response['ProductionVariants'][0]['CurrentInstanceCount']}\nWith a desired instance count of {response['ProductionVariants'][0]['DesiredInstanceCount']}")
  \<close>
\<close>

definition describe_endpoint :: "sdk \<Rightarrow> predictor \<Rightarrow> unit prog" where
  "describe_endpoint s predictor =
     bind (call s ''boto3.client'' [PyStr ''sagemaker''] []) (\<lambda>bt_sm.
     bind (call s ''describe_endpoint'' [bt_sm]
             [(''EndpointName'', PyStr (endpoint_name predictor))]) (\<lambda>response.
     bind (lift (getitem response ''EndpointName'')) (\<lambda>name.
     bind (lift (getitem response ''ProductionVariants'')) (\<lambda>variants.
     bind (lift (getindex variants 0)) (\<lambda>variant.
     bind (lift (getitem variant ''CurrentInstanceCount'')) (\<lambda>current.
     bind (lift (getitem response ''ProductionVariants'')) (\<lambda>variants.
     bind (lift (getindex variants 0)) (\<lambda>variant.
     bind (lift (getitem variant ''DesiredInstanceCount'')) (\<lambda>desired.
     print [PyStr ''Endpoint '', name, PyStr ('' has '' @ [CHR 0x0A] @ ''Current Instance Count: ''),
            current, PyStr ([CHR 0x0A] @ ''With a desired instance count of ''), desired]
     )))))))))"

definition autoscaling_cleanup :: "sdk \<Rightarrow> predictor \<Rightarrow> unit prog" where
  "autoscaling_cleanup s predictor = delete_endpoint s predictor"

definition autoscaling_notebook :: "sdk \<Rightarrow> unit prog" where
  "autoscaling_notebook s =
     bind (install_sagemaker ''2.66.2'') (\<lambda>_.
     bind (create_model s finbert_hub) (\<lambda>(endpoint_name, huggingface_model).
     bind (deploy_endpoint s huggingface_model) (\<lambda>(predictor, aws_region).
     bind (example_request s predictor) (\<lambda>data.
     bind (repeat_request s 500 predictor data) (\<lambda>_.
     bind (show_latency_dashboard aws_region predictor) (\<lambda>_.
     bind (configure_autoscaling s predictor) (\<lambda>_.
     bind (load_test s predictor data) (\<lambda>_.
     bind (show_cpu_dashboard aws_region predictor) (\<lambda>_.
     bind (describe_endpoint s predictor) (\<lambda>_.
     autoscaling_cleanup s predictor))))))))))"

section \<open>The inference-options notebook (\<open>src/unnamed/part_001\<close>)\<close>

text \<open>
  \<^verbatim>\<open>
  try:
      role = sagemaker.get_execution_role()
  except ValueError:
      iam = boto3.client('iam')
      role = iam.get_role(RoleName='sagemaker_execution_role')['Role']['Arn']
  \<close>
\<close>

definition resolve_role :: "sdk \<Rightarrow> pyval prog" where
  "resolve_role s =
     try_except (call s ''sagemaker.get_execution_role'' [] []) ValueError
       (bind (call s ''boto3.client'' [PyStr ''iam''] []) (\<lambda>iam.
        bind (call s ''get_role'' [iam] [(''RoleName'', PyStr ''sagemaker_execution_role'')])
          (\<lambda>response.
        bind (lift (getitem response ''Role'')) (\<lambda>r.
        lift (getitem r ''Arn'')))))"

text \<open>
  The configuration cell, the same in this notebook and in the distillation notebook:
  \<^verbatim>\<open>
  sess = sagemaker.Session()
  sagemaker_session_bucket=None
  if sagemaker_session_bucket is None and sess is not None:
      sagemaker_session_bucket = sess.default_bucket()
  (the role, as above)
  sess = sagemaker.Session(default_bucket=sagemaker_session_bucket)
  print(f"sagemaker role arn: {role}")
  print(f"sagemaker bucket: {sess.default_bucket()}")
  print(f"sagemaker session region: {sess.boto_region_name}")
  \<close>
\<close>

definition setup_session :: "sdk \<Rightarrow> (pyval \<times> pyval) prog" where
  "setup_session s =
     bind (call s ''sagemaker.Session'' [] []) (\<lambda>sess.
     bind (ret PyNone) (\<lambda>sagemaker_session_bucket.
     bind (if sagemaker_session_bucket = PyNone \<and> sess \<noteq> PyNone
           then call s ''default_bucket'' [sess] []
           else ret sagemaker_session_bucket) (\<lambda>sagemaker_session_bucket.
     bind (resolve_role s) (\<lambda>role.
     bind (call s ''sagemaker.Session'' [] [(''default_bucket'', sagemaker_session_bucket)])
       (\<lambda>sess.
     bind (print [PyStr ''sagemaker role arn: '', role]) (\<lambda>_.
     bind (call s ''default_bucket'' [sess] []) (\<lambda>bucket.
     bind (print [PyStr ''sagemaker bucket: '', bucket]) (\<lambda>_.
     bind (lift (getattr sess ''boto_region_name'')) (\<lambda>region.
     bind (print [PyStr ''sagemaker session region: '', region]) (\<lambda>_.
     ret (role, sagemaker_session_bucket)))))))))))"

text \<open>
  \<open>HuggingFaceModel(..., transformers_version="4.17", pytorch_version="1.10",
  py_version="py38")\<close>, with what comes before the versions.
\<close>

definition HuggingFaceModel_4_17 :: "sdk \<Rightarrow> kwargs \<Rightarrow> pyval prog" where
  "HuggingFaceModel_4_17 s kw =
     call s ''HuggingFaceModel'' []
       (kw @ [(''transformers_version'', PyStr ''4.17''), (''pytorch_version'', PyStr ''1.10''),
              (''py_version'', PyStr ''py38'')])"

text \<open>\<open>p.delete_model(); p.delete_endpoint()\<close>, the cell after each of the four endpoints.\<close>

definition cleanup :: "sdk \<Rightarrow> predictor \<Rightarrow> unit prog" where
  "cleanup s predictor =
     bind (delete_model s predictor) (\<lambda>_.
     delete_endpoint s predictor)"

subsection \<open>Real-time inference, model from the hub\<close>

definition deploy_rth :: "sdk \<Rightarrow> pyval \<Rightarrow> predictor prog" where
  "deploy_rth s role =
     bind (ret [(''HF_MODEL_ID'', PyStr ''distilbert-base-uncased-distilled-squad''),
                (''HF_TASK'', PyStr ''question-answering'')]) (\<lambda>hub.
     bind (HuggingFaceModel_4_17 s [(''env'', PyDict hub), (''role'', role)])
       (\<lambda>huggingface_model_rth.
     deploy s huggingface_model_rth []
       [(''initial_instance_count'', PyInt 1), (''instance_type'', PyStr ''ml.g4dn.xlarge'')]))"

definition data_rth :: pyval where
  "data_rth =
     PyDict [(''inputs'', PyDict
       [(''question'', PyStr ''What is used for inference?''),
        (''context'', PyStr (''My Name is Philipp and I live in Nuremberg. ''
           @ ''This model is used with sagemaker for inference.''))])]"

definition request_rth :: "sdk \<Rightarrow> predictor \<Rightarrow> unit prog" where
  "request_rth s predictor_rth =
     bind (ret data_rth) (\<lambda>data.
     bind (predict s predictor_rth data) (\<lambda>_.
     ret ()))"

subsection \<open>Real-time inference, model from S3\<close>

definition deploy_rts3 :: "sdk \<Rightarrow> pyval \<Rightarrow> predictor prog" where
  "deploy_rts3 s role =
     bind (HuggingFaceModel_4_17 s
             [(''model_data'', PyStr ''s3://hf-sagemaker-inference/model.tar.gz''),
              (''role'', role)]) (\<lambda>huggingface_model_rts3.
     deploy s huggingface_model_rts3 []
       [(''initial_instance_count'', PyInt 1), (''instance_type'', PyStr ''ml.m5.xlarge'')])"

definition data_rts3 :: pyval where
  "data_rts3 =
     PyDict [(''inputs'', PyStr (''The new Hugging Face SageMaker DLC makes it super easy ''
       @ ''to deploy models in production. I love it!''))]"

definition request_rts3 :: "sdk \<Rightarrow> predictor \<Rightarrow> unit prog" where
  "request_rts3 s predictor_rts3 =
     bind (ret data_rts3) (\<lambda>data.
     bind (predict s predictor_rts3 data) (\<lambda>_.
     ret ()))"

subsection \<open>Batch transform\<close>

definition batch_transform :: "sdk \<Rightarrow> pyval \<Rightarrow> pyval \<Rightarrow> unit prog" where
  "batch_transform s role sagemaker_session_bucket =
     bind (ret (PyStr ''./tweet_data.jsonl'')) (\<lambda>dataset_jsonl_file.
     bind (call s ''s3_path_join''
             [PyStr ''s3://'', sagemaker_session_bucket, PyStr ''london/batch_transform/input''] [])
       (\<lambda>input_s3_path.
     bind (call s ''s3_path_join''
             [PyStr ''s3://'', sagemaker_session_bucket, PyStr ''london/batch_transform/output''] [])
       (\<lambda>output_s3_path.
     bind (call s ''S3Uploader.upload'' [dataset_jsonl_file, input_s3_path] []) (\<lambda>s3_file_uri.
     bind (print [dataset_jsonl_file, PyStr '' uploaded to '', s3_file_uri]) (\<lambda>_.
     bind (ret [(''HF_MODEL_ID'', PyStr ''cardiffnlp/twitter-roberta-base-sentiment''),
                (''HF_TASK'', PyStr ''text-classification'')]) (\<lambda>hub.
     bind (HuggingFaceModel_4_17 s [(''env'', PyDict hub), (''role'', role)])
       (\<lambda>huggingface_model.
     bind (call s ''transformer'' [huggingface_model]
             [(''instance_count'', PyInt 1), (''instance_type'', PyStr ''ml.m5.xlarge''),
              (''output_path'', output_s3_path), (''strategy'', PyStr ''SingleRecord'')])
       (\<lambda>batch_job.
     bind (call s ''transform'' [batch_job]
             [(''data'', s3_file_uri), (''content_type'', PyStr ''application/json''),
              (''split_type'', PyStr ''Line'')]) (\<lambda>_.
     ret ())))))))))"

subsection \<open>Asynchronous inference\<close>

definition deploy_async :: "sdk \<Rightarrow> pyval \<Rightarrow> pyval \<Rightarrow> predictor prog" where
  "deploy_async s role sagemaker_session_bucket =
     bind (ret [(''HF_MODEL_ID'', PyStr ''distilbert-base-uncased-finetuned-sst-2-english''),
                (''HF_TASK'', PyStr ''text-classification'')]) (\<lambda>hub.
     bind (HuggingFaceModel_4_17 s [(''env'', PyDict hub), (''role'', role)])
       (\<lambda>huggingface_model_async.
     bind (call s ''s3_path_join''
             [PyStr ''s3://'', sagemaker_session_bucket, PyStr ''async_inference/output''] [])
       (\<lambda>output_path.
     bind (call s ''AsyncInferenceConfig'' [] [(''output_path'', output_path)])
       (\<lambda>async_config.
     deploy s huggingface_model_async []
       [(''initial_instance_count'', PyInt 1), (''instance_type'', PyStr ''ml.g4dn.xlarge''),
        (''async_inference_config'', async_config)]))))"

definition data_async :: pyval where
  "data_async =
     PyDict [(''inputs'', PyList
       [PyStr (''it '' @ [CHR 0x27] @ ''s a charming and often affecting journey .''),
        PyStr (''it '' @ [CHR 0x27] @ ''s slow -- very , very slow''),
        PyStr (''the mesmerizing performances of the leads keep the film grounded ''
          @ ''and keep the audience riveted .''),
        PyStr (''the emotions are raw and will strike a nerve with anyone who ''
          @ [CHR 0x27] @ ''s ever had family trauma .'')])]"

definition request_async :: "sdk \<Rightarrow> predictor \<Rightarrow> unit prog" where
  "request_async s async_predictor =
     bind (ret data_async) (\<lambda>data.
     bind (predict s async_predictor data) (\<lambda>res.
     print [res]))"

subsection \<open>Serverless inference\<close>

text \<open>
  The endpoint is deployed with \<open>DataSerializer(content_type='audio/x-audio')\<close>, and
  what \<open>predict\<close> is given is the path of the downloaded audio file.
\<close>

definition deploy_sls :: "sdk \<Rightarrow> pyval \<Rightarrow> predictor prog" where
  "deploy_sls s role =
     bind (ret [(''HF_MODEL_ID'', PyStr ''facebook/wav2vec2-base-960h''),
                (''HF_TASK'', PyStr ''automatic-speech-recognition'')]) (\<lambda>hub.
     bind (HuggingFaceModel_4_17 s [(''env'', PyDict hub), (''role'', role)])
       (\<lambda>huggingface_model_sls.
     bind (call s ''ServerlessInferenceConfig'' []
             [(''memory_size_in_mb'', PyInt 4096), (''max_concurrency'', PyInt 10)])
       (\<lambda>serverless_config.
     bind (call s ''DataSerializer'' [] [(''content_type'', PyStr ''audio/x-audio'')])
       (\<lambda>audio_serializer.
     deploy s huggingface_model_sls []
       [(''serverless_inference_config'', serverless_config),
        (''serializer'', audio_serializer)]))))"

definition audio_path :: pyval where
  "audio_path = PyStr ''sample1.flac''"

definition request_sls :: "sdk \<Rightarrow> predictor \<Rightarrow> unit prog" where
  "request_sls s predictor_sls =
     bind (shell ''wget https://cdn-media.huggingface.co/speech_samples/sample1.flac'') (\<lambda>_.
     bind (predict s predictor_sls audio_path) (\<lambda>res.
     print [res]))"

definition inference_options_notebook :: "sdk \<Rightarrow> unit prog" where
  "inference_options_notebook s =
     bind (install_sagemaker ''2.48.0'') (\<lambda>_.
     bind (setup_session s) (\<lambda>(role, sagemaker_session_bucket).
     bind (deploy_rth s role) (\<lambda>predictor_rth.
     bind (request_rth s predictor_rth) (\<lambda>_.
     bind (cleanup s predictor_rth) (\<lambda>_.
     bind (deploy_rts3 s role) (\<lambda>predictor_rts3.
     bind (request_rts3 s predictor_rts3) (\<lambda>_.
     bind (cleanup s predictor_rts3) (\<lambda>_.
     bind (batch_transform s role sagemaker_session_bucket) (\<lambda>_.
     bind (deploy_async s role sagemaker_session_bucket) (\<lambda>async_predictor.
     bind (request_async s async_predictor) (\<lambda>_.
     bind (cleanup s async_predictor) (\<lambda>_.
     bind (deploy_sls s role) (\<lambda>predictor_sls.
     bind (request_sls s predictor_sls) (\<lambda>_.
     cleanup s predictor_sls))))))))))))))"

section \<open>The knowledge-distillation notebook (\<open>lab2_knowledge_distillation.ipynb\<close>)\<close>

definition hyperparameters :: "pyval \<Rightarrow> kwargs" where
  "hyperparameters hub_token =
     [(''teacher_id'', PyStr ''optimum/roberta-large-finetuned-clinc''),
      (''student_id'', PyStr ''nreimers/MiniLMv2-L12-H384-distilled-from-RoBERTa-Large''),
      (''dataset_id'', PyStr ''clinc_oos''),
      (''dataset_config'', PyStr ''plus''),
      (''epochs'', PyInt 10),
      (''alpha'', PyFloat 0.055199695773231194),
      (''temparature'', PyInt 19),
      (''learning_rate'', PyFloat 0.0001),
      (''run_hpo'', PyBool False),
      (''n_trials'', PyInt 100),
      (''push_to_hub'', PyBool True),
      (''hub_model_id'', PyStr ''MiniLMv2-L12-H384-distilled-finetuned-clinc''),
      (''hub_token'', hub_token)]"

definition create_estimator :: "sdk \<Rightarrow> pyval \<Rightarrow> pyval prog" where
  "create_estimator s role =
     bind (call s ''HfFolder.get_token'' [] []) (\<lambda>hub_token.
     bind (ret (PyStr ''knowledge-distillation'')) (\<lambda>job_name.
     call s ''HuggingFace'' []
       [(''entry_point'', PyStr ''knowledge_distillation.py''),
        (''source_dir'', PyStr ''./scripts''),
        (''instance_type'', PyStr ''ml.p3.2xlarge''),
        (''instance_count'', PyInt 1),
        (''role'', role),
        (''base_job_name'', job_name),
        (''transformers_version'', PyStr ''4.17''),
        (''pytorch_version'', PyStr ''1.10''),
        (''py_version'', PyStr ''py38''),
        (''hyperparameters'', PyDict (hyperparameters hub_token))]))"

definition fit :: "sdk \<Rightarrow> pyval \<Rightarrow> unit prog" where
  "fit s huggingface_estimator =
     bind (call s ''fit'' [huggingface_estimator] [(''wait'', PyBool False)]) (\<lambda>_. ret ())"

text \<open>\<open>predictor = huggingface_estimator.deploy(1,"ml.c5.xlarge")\<close>\<close>

definition deploy_student :: "sdk \<Rightarrow> pyval \<Rightarrow> predictor prog" where
  "deploy_student s huggingface_estimator =
     deploy s huggingface_estimator [PyInt 1, PyStr ''ml.c5.xlarge''] []"

text \<open>
  \<^verbatim>\<open>
  sentiment_input= {"inputs": "Harry believes it, although no one else believes that Sally is innocent." * 9}
  for i in range(1000):
    predictor.predict(sentiment_input)
  \<close>
\<close>

definition sentiment_input :: pyval where
  "sentiment_input =
     PyDict [(''inputs'', PyStr (concat (replicate 9
       ''Harry believes it, although no one else believes that Sally is innocent.'')))]"

definition measure_latency :: "sdk \<Rightarrow> predictor \<Rightarrow> unit prog" where
  "measure_latency s predictor = repeat_request s 1000 predictor sentiment_input"

text \<open>The link of this notebook: the region is part of the literal text.\<close>

definition distillation_dashboard_url :: "predictor \<Rightarrow> string" where
  "distillation_dashboard_url predictor =
     ''https://us-east-1.console.aws.amazon.com/cloudwatch/home?region=us-east-1''
     @ ''#metricsV2:graph=~(metrics~(~(~'' @ [CHR 0x27] @ ''AWS*2fSageMaker~'' @ [CHR 0x27]
     @ ''ModelLatency~'' @ [CHR 0x27] @ ''EndpointName~'' @ [CHR 0x27]
     @ endpoint_name predictor
     @ ''~'' @ [CHR 0x27] @ ''VariantName~'' @ [CHR 0x27] @ ''AllTraffic))~view~'' @ [CHR 0x27]
     @ ''timeSeries~stacked~false~region~'' @ [CHR 0x27] @ ''us-east-1~start~'' @ [CHR 0x27]
     @ ''-PT10M~end~'' @ [CHR 0x27] @ ''P0D~stat~'' @ [CHR 0x27]
     @ ''p99~period~300);query=~'' @ [CHR 0x27]
     @ ''*7bAWS*2fSageMaker*2cEndpointName*2cVariantName*7d*20'' @ endpoint_name predictor"

definition show_distillation_dashboard :: "predictor \<Rightarrow> unit prog" where
  "show_distillation_dashboard predictor = print [PyStr (distillation_dashboard_url predictor)]"

text \<open>
  \<^verbatim>\<open>
  predictor.delete_model
  predictor.delete_endpoint()
  \<close>
  The first line names the bound method and does not call it.
\<close>

definition distillation_cleanup :: "sdk \<Rightarrow> predictor \<Rightarrow> unit prog" where
  "distillation_cleanup s predictor =
     bind (discard (delete_model s predictor)) (\<lambda>_.
     delete_endpoint s predictor)"

definition metrics :: pyval where
  "metrics =
     PyDict
       [(''roberta-large'', PyDict
          [(''time_p99_ms'', PyInt 322), (''accuracy'', PyFloat 0.9644), (''size_mb'', PyInt 1322)]),
        (''minilm-12-h384'', PyDict
          [(''time_p99_ms'', PyInt 79), (''accuracy'', PyFloat 0.9220), (''size_mb'', PyInt 156)])]"

definition performance_chart :: "sdk \<Rightarrow> unit prog" where
  "performance_chart s =
     bind (call s ''plot_metrics'' [metrics, PyStr ''minilm-12-h384''] []) (\<lambda>_. ret ())"

definition distillation_notebook :: "sdk \<Rightarrow> unit prog" where
  "distillation_notebook s =
     bind (shell ''pip install sagemaker huggingface_hub --upgrade'') (\<lambda>_.
     bind (call s ''notebook_login'' [] []) (\<lambda>_.
     bind (setup_session s) (\<lambda>(role, sagemaker_session_bucket).
     bind (create_estimator s role) (\<lambda>huggingface_estimator.
     bind (fit s huggingface_estimator) (\<lambda>_.
     bind (deploy_student s huggingface_estimator) (\<lambda>predictor.
     bind (measure_latency s predictor) (\<lambda>_.
     bind (show_distillation_dashboard predictor) (\<lambda>_.
     bind (distillation_cleanup s predictor) (\<lambda>_.
     performance_chart s)))))))))"

definition notebooks :: "(sdk \<Rightarrow> unit prog) list" where
  "notebooks = [autoscaling_notebook, inference_options_notebook, distillation_notebook]"

section \<open>Observations on a run\<close>

subsection \<open>Two behaviours of the outside world\<close>

text \<open>
  \<open>sample_sdk\<close>: every call returns. A session knows its region, a description of an
  endpoint has the fields the notebook prints, and each deployment gives an endpoint
  with a name of its own.
\<close>

definition sample_sdk :: sdk where
  "sample_sdk =
     \<lparr>sdk_call = (\<lambda>h f as kw.
        if f = ''sagemaker.Session''
        then Inr (PyObj ''Session'' [(''boto_region_name'', PyStr ''eu-west-1'')])
        else if f = ''describe_endpoint''
        then Inr (PyDict [(''EndpointName'', PyStr ''finbert''),
               (''ProductionVariants'', PyList [PyDict
                  [(''CurrentInstanceCount'', PyInt 1), (''DesiredInstanceCount'', PyInt 1)]])])
        else Inr (PyObj f [])),
      sdk_deploy = (\<lambda>h model as kw.
        Inr \<lparr>endpoint_name = ''endpoint-'' @ replicate (length h) (CHR ''i''),
             sagemaker_session = \<lparr>boto_region_name = ''eu-west-1''\<rparr>\<rparr>),
      sdk_predict = (\<lambda>h p d. Inr (PyList [])),
      sdk_delete_model = (\<lambda>h p. Inr ()),
      sdk_delete_endpoint = (\<lambda>h p. Inr ()),
      sdk_uuid4 = (\<lambda>h. ''73d26f97-9376-4b3f-9334-a2b5a77f4f3e''),
      sdk_cpu_count = (\<lambda>h. Some 4)\<rparr>"

text \<open>
  \<open>local_sdk\<close>: the notebook runs outside SageMaker, where
  \<open>get_execution_role\<close> raises \<open>ValueError\<close>, and the account allows no endpoint.
\<close>

definition local_sdk :: sdk where
  "local_sdk =
     sample_sdk
       \<lparr>sdk_call := (\<lambda>h f as kw.
          if f = ''sagemaker.get_execution_role'' then Inl ValueError
          else if f = ''get_role''
          then Inr (PyDict [(''Role'', PyDict
                 [(''Arn'', PyStr ''arn:aws:iam::111122223333:role/sagemaker_execution_role'')])])
          else sdk_call sample_sdk h f as kw),
        sdk_deploy := (\<lambda>h model as kw. Inl (OtherError ''ResourceLimitExceeded''))\<rparr>"

subsection \<open>What a history shows\<close>

text \<open>The payload of a prediction, whoever runs it, and of a task given to the pool.\<close>

fun payload_of :: "op \<Rightarrow> pyval option" where
  "payload_of (Predict p d) = Some d"
| "payload_of (WorkerPredict p d) = Some d"
| "payload_of (Submit p d) = Some d"
| "payload_of _ = None"

text \<open>
  The request of the data model: a JSON object with an \<open>inputs\<close> field and, at most,
  a \<open>parameters\<close> field beside it.
\<close>

fun is_inference_payload :: "pyval \<Rightarrow> bool" where
  "is_inference_payload (PyDict kvs) =
     (''inputs'' \<in> set (map fst kvs) \<and> set (map fst kvs) \<subseteq> {''inputs'', ''parameters''})"
| "is_inference_payload _ = False"

text \<open>The calls of a library function that returned, with their arguments.\<close>

fun call_of :: "string \<Rightarrow> event \<Rightarrow> (pyval list \<times> kwargs) list" where
  "call_of f (Call g as kw, Returned) = (if g = f then [(as, kw)] else [])"
| "call_of f _ = []"

definition calls_of :: "string \<Rightarrow> history \<Rightarrow> (pyval list \<times> kwargs) list" where
  "calls_of f h = concat (map (call_of f) h)"

text \<open>\<open>v[k1][k2]...\<close> through nested dictionaries.\<close>

fun path :: "pyval \<Rightarrow> string list \<Rightarrow> pyval option" where
  "path v [] = Some v"
| "path (PyDict kvs) (k # ks) = (case map_of kvs k of None \<Rightarrow> None | Some v \<Rightarrow> path v ks)"
| "path _ (k # ks) = None"

text \<open>The tasks given to the pool, and the predictions its workers ran.\<close>

fun submission_of :: "event \<Rightarrow> (predictor \<times> pyval) list" where
  "submission_of (Submit p d, out) = [(p, d)]"
| "submission_of _ = []"

definition submissions :: "history \<Rightarrow> (predictor \<times> pyval) list" where
  "submissions h = concat (map submission_of h)"

fun worker_event :: "event \<Rightarrow> bool" where
  "worker_event (WorkerPredict p d, out) = True"
| "worker_event _ = False"

text \<open>
  Endpoints coming up, and models and endpoints being deleted, in order: the deployments
  that returned a predictor and the deletions that returned.
\<close>

datatype lifecycle = Up predictor | ModelDown predictor | Down predictor

fun lifecycle_of :: "event \<Rightarrow> lifecycle list" where
  "lifecycle_of (Deploy model as kw, Created p) = [Up p]"
| "lifecycle_of (DeleteModel p, Returned) = [ModelDown p]"
| "lifecycle_of (DeleteEndpoint p, Returned) = [Down p]"
| "lifecycle_of _ = []"

definition lifecycle :: "history \<Rightarrow> lifecycle list" where
  "lifecycle h = concat (map lifecycle_of h)"

text \<open>Every endpoint that came up goes down later.\<close>

fun torn_down :: "lifecycle list \<Rightarrow> bool" where
  "torn_down [] = True"
| "torn_down (Up p # l) = (Down p \<in> set l \<and> torn_down l)"
| "torn_down (x # l) = torn_down l"

text \<open>The payload of an event, if it has one, is a request of the data model.\<close>

definition payload_ok :: "event \<Rightarrow> bool" where
  "payload_ok ev =
     (case payload_of (fst ev) of None \<Rightarrow> True | Some d \<Rightarrow> is_inference_payload d)"

text \<open>
  The latest deployment of a history, whatever its outcome. A request to the serverless
  speech endpoint is a \<open>predict\<close> call, on the predictor that the latest deployment
  returned, with the path of the audio file; that deployment was given the keywords
  \<open>serverless_inference_config\<close> and \<open>serializer\<close> and no other, and the one
  \<open>DataSerializer\<close> made before is \<open>DataSerializer(content_type='audio/x-audio')\<close>.
\<close>

fun is_deployment :: "event \<Rightarrow> bool" where
  "is_deployment (Deploy model as kw, out) = True"
| "is_deployment _ = False"

fun last_deployment :: "history \<Rightarrow> event option" where
  "last_deployment [] = None"
| "last_deployment (ev # h) =
     (case last_deployment h of Some e \<Rightarrow> Some e
      | None \<Rightarrow> if is_deployment ev then Some ev else None)"

fun audio_request :: "event option \<Rightarrow> (pyval list \<times> kwargs) list \<Rightarrow> op \<Rightarrow> bool" where
  "audio_request (Some (Deploy model as kw, Created q)) serializers (Predict p d) =
     (p = q \<and> d = audio_path
      \<and> map fst kw = [''serverless_inference_config'', ''serializer'']
      \<and> serializers = [([], [(''content_type'', PyStr ''audio/x-audio'')])])"
| "audio_request _ _ _ = False"

definition serverless_audio_request :: "history \<Rightarrow> op \<Rightarrow> bool" where
  "serverless_audio_request h c =
     audio_request (last_deployment h) (calls_of ''DataSerializer'' h) c"

text \<open>
  An event after the history \<open>h\<close> is in order when its payload, if it has one, is a
  request of the data model, or the event is a request to the serverless speech
  endpoint; and so for the events of a history one after the other. An event of a cell
  that comes before any serializer is made carries a request of the data model and is
  not the making of a \<open>DataSerializer\<close>.
\<close>

definition request_ok :: "history \<Rightarrow> event \<Rightarrow> bool" where
  "request_ok h ev =
     (case payload_of (fst ev) of None \<Rightarrow> True
      | Some d \<Rightarrow> is_inference_payload d \<or> serverless_audio_request h (fst ev))"

fun requests_ok :: "history \<Rightarrow> history \<Rightarrow> bool" where
  "requests_ok h [] = True"
| "requests_ok h (ev # t) = (request_ok h ev \<and> requests_ok (h @ [ev]) t)"

definition json_request :: "event \<Rightarrow> bool" where
  "json_request ev = (payload_ok ev \<and> call_of ''DataSerializer'' ev = [])"

fun is_delete_model :: "event \<Rightarrow> bool" where
  "is_delete_model (DeleteModel p, out) = True"
| "is_delete_model _ = False"

text \<open>
  Exceptions: an event that raised, and the one raise that the notebooks catch, the
  \<open>ValueError\<close> of \<open>get_execution_role\<close> in the configuration cell.
\<close>

fun is_raised :: "event \<Rightarrow> bool" where
  "is_raised (c, Raised e) = True"
| "is_raised _ = False"

definition caught_role_error :: "event \<Rightarrow> bool" where
  "caught_role_error ev = (ev = (Call ''sagemaker.get_execution_role'' [] [], Raised ValueError))"

text \<open>
  A piece of code emits only events of a kind; and it lets exceptions through: of
  what it adds to the history, an event that raised is of the kind \<open>X\<close>, or it is the
  last event and its exception is the outcome.
\<close>

definition emits :: "(event \<Rightarrow> bool) \<Rightarrow> 'a prog \<Rightarrow> bool" where
  "emits S m = (\<forall>h. \<exists>t. snd (m h) = h @ t \<and> list_all S t)"

definition quiet :: "(event \<Rightarrow> bool) \<Rightarrow> history \<Rightarrow> bool" where
  "quiet X t = list_all (\<lambda>ev. is_raised ev \<longrightarrow> X ev) t"

definition propagates :: "(event \<Rightarrow> bool) \<Rightarrow> 'a prog \<Rightarrow> bool" where
  "propagates X m =
     (\<forall>h. \<exists>t. snd (m h) = h @ t \<and>
        (quiet X t \<or> (\<exists>t0 c e. t = t0 @ [(c, Raised e)] \<and> fst (m h) = Inl e \<and> quiet X t0)))"

subsection \<open>The endpoint name as the text states it\<close>



text \<open>The names that a history gives to \<open>HuggingFaceModel(..., name=...)\<close>, in order.\<close>

fun model_name_of :: "event \<Rightarrow> pyval list" where
  "model_name_of (Call f as kw, out) =
     (if f = ''HuggingFaceModel''
      then (case map_of kw ''name'' of None \<Rightarrow> [] | Some n \<Rightarrow> [n]) else [])"
| "model_name_of _ = []"

definition model_names :: "history \<Rightarrow> pyval list" where
  "model_names h = concat (map model_name_of h)"

section \<open>Properties of the distillation loss\<close>

subsection \<open>Rows of a tensor\<close>

lemma chunks_map: "chunks n (map f xs) = map (map f) (chunks n xs)"
proof (induction n xs rule: chunks.induct)
  case (1 n xs)
  show ?case
  proof (cases "n = 0 \<or> xs = []")
    case True
    then show ?thesis by (auto simp: chunks.simps)
  next
    case False
    with "1" show ?thesis
      by (subst chunks.simps, subst (2) chunks.simps) (simp add: take_map drop_map)
  qed
qed

lemma chunks_same_lengths:
  "length xs = length ys \<Longrightarrow> list_all2 (\<lambda>a b. length a = length b) (chunks n xs) (chunks n ys)"
proof (induction n xs arbitrary: ys rule: chunks.induct)
  case (1 n xs)
  show ?case
  proof (cases "n = 0 \<or> xs = []")
    case True
    with "1.prems" show ?thesis by (auto simp: chunks.simps)
  next
    case False
    with "1.prems" have ys: "ys \<noteq> []" by auto
    from False "1.prems" have "list_all2 (\<lambda>a b. length a = length b) (chunks n (drop n xs)) (chunks n (drop n ys))"
      by (intro "1.IH") auto
    with False ys "1.prems" show ?thesis
      by (subst chunks.simps, subst (2) chunks.simps) simp
  qed
qed

lemma chunks_nonempty: "r \<in> set (chunks n xs) \<Longrightarrow> r \<noteq> []"
proof (induction n xs rule: chunks.induct)
  case (1 n xs)
  show ?case
  proof (cases "n = 0 \<or> xs = []")
    case True
    with "1.prems" show ?thesis by (simp add: chunks.simps)
  next
    case False
    with "1.prems" have "r = take n xs \<or> r \<in> set (chunks n (drop n xs))"
      by (subst (asm) chunks.simps) auto
    with False "1.IH" show ?thesis by auto
  qed
qed

lemma length_chunks: "0 < n \<Longrightarrow> length xs = b * n \<Longrightarrow> length (chunks n xs) = b"
proof (induction n xs arbitrary: b rule: chunks.induct)
  case (1 n xs)
  show ?case
  proof (cases "xs = []")
    case True
    with "1.prems" show ?thesis by (simp add: chunks.simps)
  next
    case False
    with "1.prems" obtain b' where b: "b = Suc b'" by (cases b) auto
    with "1.prems" have "length (drop n xs) = b' * n" by simp
    with "1.prems" False have "length (chunks n (drop n xs)) = b'"
      by (intro "1.IH") auto
    with False "1.prems" b show ?thesis by (subst chunks.simps) simp
  qed
qed

lemma sum_list_zip_concat:
  "list_all2 (\<lambda>a b. length a = length b) xss yss \<Longrightarrow>
   (\<Sum>(x, y)\<leftarrow>zip (concat xss) (concat yss). f x y) =
   (\<Sum>(xs, ys)\<leftarrow>zip xss yss. \<Sum>(x, y)\<leftarrow>zip xs ys. (f x y :: real))"
  by (induction xss yss rule: list_all2_induct) auto

lemma sum_exp_nonneg: "0 \<le> (\<Sum>y\<leftarrow>z. exp (y::real))"
  by (induction z) (auto intro: add_nonneg_nonneg)

lemma sum_exp_pos: "z \<noteq> [] \<Longrightarrow> 0 < (\<Sum>y\<leftarrow>z. exp (y::real))"
  by (cases z) (auto intro: add_pos_nonneg sum_exp_nonneg)

lemma kl_terms:
  assumes "0 < (S::real)" "0 < (T::real)" "length s = length t"
  shows "(\<Sum>(x, y)\<leftarrow>zip (map (\<lambda>x. x - ln S) s) (map (\<lambda>x. exp x / T) t). y * (ln y - x)) =
         (\<Sum>(pi, qi)\<leftarrow>zip (map (\<lambda>x. exp x / T) t) (map (\<lambda>x. exp x / S) s). pi * ln (pi / qi))"
  using assms(3)
proof (induction s t rule: list_induct2)
  case Nil
  then show ?case by simp
next
  case (Cons x xs y ys)
  have a: "0 < exp y / T" and b: "0 < exp x / S"
    using assms(1,2) by simp_all
  have "ln (exp y / T / (exp x / S)) = ln (exp y / T) - ln (exp x / S)"
    by (rule ln_divide_pos [OF a b])
  moreover have "ln (exp x / S) = ln (exp x) - ln S"
    by (rule ln_divide_pos [OF exp_gt_zero assms(1)])
  ultimately have "ln (exp y / T / (exp x / S)) = ln (exp y / T) - (x - ln S)"
    by simp
  with Cons show ?case by simp
qed

lemma kl_row:
  assumes "length s = length t" "t \<noteq> []"
  shows "(\<Sum>(x, y)\<leftarrow>zip (log_softmax_vec s) (softmax_vec t). y * (ln y - x)) =
         kl_divergence (softmax_vec t) (softmax_vec s)"
proof -
  from assms have s: "s \<noteq> []" by auto
  have "0 < (\<Sum>y\<leftarrow>s. exp y)" and "0 < (\<Sum>y\<leftarrow>t. exp y)"
    using s assms(2) by (simp_all add: sum_exp_pos)
  from kl_terms [OF this assms(1)] show ?thesis
    by (simp add: log_softmax_vec_def softmax_vec_def kl_divergence_def)
qed

lemma kl_rows:
  assumes "list_all2 (\<lambda>a b. length a = length b) ss ts" "\<forall>t\<in>set ts. t \<noteq> []"
  shows "(\<Sum>(x, y)\<leftarrow>zip (concat (map log_softmax_vec ss)) (concat (map softmax_vec ts)). y * (ln y - x)) =
         (\<Sum>(p, q)\<leftarrow>zip (map softmax_vec ts) (map softmax_vec ss). kl_divergence p q)"
proof -
  have "list_all2 (\<lambda>a b. length a = length b) (map log_softmax_vec ss) (map softmax_vec ts)"
    using assms(1) by (simp add: list_all2_map1 list_all2_map2 log_softmax_vec_def softmax_vec_def)
  then have "(\<Sum>(x, y)\<leftarrow>zip (concat (map log_softmax_vec ss)) (concat (map softmax_vec ts)). y * (ln y - x)) =
     (\<Sum>(xs, ys)\<leftarrow>zip (map log_softmax_vec ss) (map softmax_vec ts). \<Sum>(x, y)\<leftarrow>zip xs ys. y * (ln y - x))"
    by (rule sum_list_zip_concat)
  also have "\<dots> = (\<Sum>(p, q)\<leftarrow>zip (map softmax_vec ts) (map softmax_vec ss). kl_divergence p q)"
    using assms
  proof (induction ss ts rule: list_all2_induct)
    case Nil
    then show ?case by simp
  next
    case (Cons s ss t ts)
    then show ?case by (simp add: kl_row)
  qed
  finally show ?thesis .
qed

lemma tensor_div_Some:
  "tensor_div t c = Some q \<Longrightarrow> q = t\<lparr>elems := map (\<lambda>x. x / c) (elems t)\<rparr>"
  by (simp add: tensor_div_def split: if_splits)

lemma rows_tensor_div:
  "tensor_div t c = Some q \<Longrightarrow> rows q = map (map (\<lambda>x. x / c)) (rows t)"
  by (drule tensor_div_Some) (simp add: rows_def last_dim_def chunks_map split: list.splits)

lemma softened_rows:
  "tensor_div t c = Some q \<Longrightarrow> map softmax_vec (rows q) = softened (rows t) c"
  by (simp add: rows_tensor_div softened_def)

lemma length_rows:
  assumes "shape t = [B, C]" "wf_tensor t" "0 < C"
  shows "length (rows t) = B"
  using assms by (simp add: rows_def last_dim_def wf_tensor_def length_chunks)

subsection \<open>The loss is the textbook loss\<close>

lemma kl_batchmean:
  assumes "shape s = [B, C]" and "shape t = [B, C]" and "wf_tensor s" and "wf_tensor t"
    and "0 < B" and "0 < C" and "c \<noteq> 0"
    and "tensor_div s c = Some s'" and "tensor_div t c = Some t'"
  shows "KLDivLoss_batchmean (log_softmax s') (softmax t') =
     Value (mean_kl_divergence (softened (rows t) c) (softened (rows s) c))"
proof -
  from assms(7,8,9) have s': "s' = s\<lparr>elems := map (\<lambda>x. x / c) (elems s)\<rparr>"
    and t': "t' = t\<lparr>elems := map (\<lambda>x. x / c) (elems t)\<rparr>"
    by (simp_all add: tensor_div_def)
  have len: "length (elems s') = length (elems t')"
    using assms(1-4) by (simp add: s' t' wf_tensor_def)
  have ld: "last_dim s' = last_dim t'"
    using assms(1,2) by (simp add: s' t' last_dim_def)
  have all2: "list_all2 (\<lambda>a b. length a = length b) (rows s') (rows t')"
    using len ld by (simp add: rows_def chunks_same_lengths)
  have ne: "\<forall>r\<in>set (rows t'). r \<noteq> []"
    by (auto simp: rows_def dest: chunks_nonempty)
  have sum: "(\<Sum>(x, y)\<leftarrow>zip (elems (log_softmax s')) (elems (softmax t')). y * (ln y - x)) =
     (\<Sum>(p, q)\<leftarrow>zip (softened (rows t) c) (softened (rows s) c). kl_divergence p q)"
    using kl_rows [OF all2 ne]
    by (simp add: log_softmax_def softmax_def softened_rows [OF assms(8)] softened_rows [OF assms(9)])
  have "length (rows t) = B"
    using assms(2,4,6) by (rule length_rows)
  with sum assms(1,5) show ?thesis
    by (simp add: KLDivLoss_batchmean_def mean_kl_divergence_def log_softmax_def s' softened_def)
qed

text \<open>
  Claim C1. For logits of shape \<open>[B, C]\<close> (a batch of \<open>B > 0\<close> examples over
  \<open>C > 0\<close> classes) and a temperature \<open>T \<noteq> 0\<close>, \<open>compute_loss\<close> returns
  \<open>alpha * L_CE + (1 - alpha) * T\<^sup>2 * KL(softmax(teacher_logits / T) || softmax(student_logits / T))\<close>,
  where \<open>L_CE\<close> is the loss of the student's own output, both distributions are
  the softmax of the logits divided by \<open>T\<close>, and the divergence of the batch is the
  mean of the divergences of its examples. With \<open>return_outputs\<close> the student's
  outputs come with the loss.
\<close>

theorem compute_loss_is_textbook_loss:
  assumes "shape (logits (model inputs)) = [B, C]"
    and "shape (logits (teacher self inputs)) = [B, C]"
    and "wf_tensor (logits (model inputs))"
    and "wf_tensor (logits (teacher self inputs))"
    and "0 < B" and "0 < C"
    and "temperature (args self) \<noteq> 0"
  shows "compute_loss self model inputs return_outputs =
    (let l = Value (textbook_loss (alpha (args self)) (temperature (args self)) (loss (model inputs))
               (rows (logits (teacher self inputs))) (rows (logits (model inputs))))
     in Inr (if return_outputs then LossWithOutputs l (model inputs) else Loss l))"
proof -
  let ?T = "temperature (args self)"
  obtain s' t' where s': "tensor_div (logits (model inputs)) ?T = Some s'"
    and t': "tensor_div (logits (teacher self inputs)) ?T = Some t'"
    using assms(7) by (simp add: tensor_div_def)
  have "KLDivLoss_batchmean (log_softmax s') (softmax t') =
     Value (mean_kl_divergence (softened (rows (logits (teacher self inputs))) ?T)
        (softened (rows (logits (model inputs))) ?T))"
    using assms s' t' by (rule kl_batchmean)
  with assms(1,2) s' t' show ?thesis
    by (simp add: compute_loss_def Let_def textbook_loss_def)
qed

text \<open>
  Outside these bounds the code divides by zero and the loss it returns is \<open>nan\<close>: at
  temperature \<open>0\<close> when the logits have an element, and for an empty batch.
\<close>

lemma compute_loss_at_temperature_zero:
  assumes "shape (logits (model inputs)) = shape (logits (teacher self inputs))"
    and "elems (logits (model inputs)) \<noteq> [] \<or> elems (logits (teacher self inputs)) \<noteq> []"
    and "temperature (args self) = 0"
  shows "compute_loss self model inputs return_outputs =
     Inr (if return_outputs then LossWithOutputs NaN (model inputs) else Loss NaN)"
  using assms by (auto simp: compute_loss_def Let_def tensor_div_def)

lemma compute_loss_of_empty_batch:
  assumes "shape (logits (model inputs)) = 0 # dims"
    and "shape (logits (teacher self inputs)) = 0 # dims"
    and "wf_tensor (logits (model inputs))"
    and "wf_tensor (logits (teacher self inputs))"
  shows "compute_loss self model inputs return_outputs =
     Inr (if return_outputs then LossWithOutputs NaN (model inputs) else Loss NaN)"
  using assms
  by (simp add: compute_loss_def Let_def tensor_div_def wf_tensor_def KLDivLoss_batchmean_def
      log_softmax_def)

text \<open>
  A batch of two examples over two classes, at temperature \<open>2\<close> and \<open>alpha = 1/2\<close>:
  the softened distributions are \<open>(1/2, 1/2)\<close> against \<open>(1/4, 3/4)\<close> and
  \<open>(3/4, 1/4)\<close> against \<open>(1/2, 1/2)\<close>, and the distillation term
  \<open>(1 - alpha) * T\<^sup>2 * KL\<close> is \<open>ln 3 / 4\<close>.
\<close>

lemma sample_textbook_loss:
  "textbook_loss (1 / 2) 2 3 [[0, 0], [2 * ln 3, 0]] [[0, 2 * ln 3], [0, 0]] = 3 / 2 + ln 3 / 4"
proof -
  have a: "ln (2 / 3 :: real) = ln 2 - ln 3" and b: "ln (3 / 2 :: real) = ln 3 - ln 2"
    and c: "ln (1 / 2 :: real) = - ln 2"
    by (simp_all add: ln_div)
  show ?thesis
    by (simp add: textbook_loss_def mean_kl_divergence_def kl_divergence_def softened_def
        softmax_vec_def a b c field_simps)
qed

theorem compute_loss_is_textbook_loss_witness:
  "compute_loss
     \<lparr>args = \<lparr>alpha = 1 / 2, temperature = 2\<rparr>,
      teacher = (\<lambda>u::unit. \<lparr>loss = 0, logits = \<lparr>shape = [2, 2], elems = [0, 0, 2 * ln 3, 0]\<rparr>\<rparr>)\<rparr>
     (\<lambda>u. \<lparr>loss = 3, logits = \<lparr>shape = [2, 2], elems = [0, 2 * ln 3, 0, 0]\<rparr>\<rparr>) () False
   = Inr (Loss (Value (3 / 2 + ln 3 / 4)))"
  using compute_loss_is_textbook_loss
    [of "\<lambda>u. \<lparr>loss = 3, logits = \<lparr>shape = [2, 2], elems = [0, 2 * ln 3, 0, 0]\<rparr>\<rparr>" "()" 2 2
        "\<lparr>args = \<lparr>alpha = 1 / 2, temperature = 2\<rparr>,
          teacher = (\<lambda>u::unit. \<lparr>loss = 0, logits = \<lparr>shape = [2, 2], elems = [0, 0, 2 * ln 3, 0]\<rparr>\<rparr>)\<rparr>"
        False]
  by (simp add: wf_tensor_def rows_def last_dim_def chunks.simps sample_textbook_loss)

subsection \<open>The assertion on the sizes\<close>

text \<open>
  Claim C10. \<open>compute_loss\<close> compares the sizes of the student's and the teacher's
  logits before it computes anything of the distillation loss: when they are equal a
  loss is returned, and when they differ the call raises \<open>AssertionError\<close> and
  returns nothing.
\<close>

theorem compute_loss_asserts_equal_sizes:
  "(shape (logits (model inputs)) = shape (logits (teacher self inputs)) \<longrightarrow>
      (\<exists>l. compute_loss self model inputs return_outputs
            = Inr (if return_outputs then LossWithOutputs l (model inputs) else Loss l)))
   \<and> (shape (logits (model inputs)) \<noteq> shape (logits (teacher self inputs)) \<longrightarrow>
      compute_loss self model inputs return_outputs = Inl AssertionError)"
  by (simp add: compute_loss_def Let_def)

theorem compute_loss_asserts_equal_sizes_witness:
  "(\<exists>l. compute_loss
      \<lparr>args = \<lparr>alpha = 1 / 2, temperature = 2\<rparr>,
       teacher = (\<lambda>u::unit. \<lparr>loss = 0, logits = \<lparr>shape = [1, 2], elems = [0, 0]\<rparr>\<rparr>)\<rparr>
      (\<lambda>u. \<lparr>loss = 3, logits = \<lparr>shape = [1, 2], elems = [4, 4]\<rparr>\<rparr>) () False = Inr (Loss l))
   \<and> compute_loss
      \<lparr>args = \<lparr>alpha = 1 / 2, temperature = 2\<rparr>,
       teacher = (\<lambda>u::unit. \<lparr>loss = 0, logits = \<lparr>shape = [1, 3], elems = [0, 0, 0]\<rparr>\<rparr>)\<rparr>
      (\<lambda>u. \<lparr>loss = 3, logits = \<lparr>shape = [1, 2], elems = [4, 4]\<rparr>\<rparr>) () False
     = Inl AssertionError"
  using compute_loss_asserts_equal_sizes
    [of "\<lambda>u. \<lparr>loss = 3, logits = \<lparr>shape = [1, 2], elems = [4, 4]\<rparr>\<rparr>" "()"
        "\<lparr>args = \<lparr>alpha = 1 / 2, temperature = 2\<rparr>,
          teacher = (\<lambda>u::unit. \<lparr>loss = 0, logits = \<lparr>shape = [1, 2], elems = [0, 0]\<rparr>\<rparr>)\<rparr>"
        False]
    compute_loss_asserts_equal_sizes
    [of "\<lambda>u. \<lparr>loss = 3, logits = \<lparr>shape = [1, 2], elems = [4, 4]\<rparr>\<rparr>" "()"
        "\<lparr>args = \<lparr>alpha = 1 / 2, temperature = 2\<rparr>,
          teacher = (\<lambda>u::unit. \<lparr>loss = 0, logits = \<lparr>shape = [1, 3], elems = [0, 0, 0]\<rparr>\<rparr>)\<rparr>"
        False]
  by simp

section \<open>Properties of the notebooks\<close>

subsection \<open>Running statements\<close>

lemmas prog_defs = bind_def ret_def raise_def lift_def invoke_def call_def deploy_def predict_def
  delete_model_def delete_endpoint_def uuid4_def cpu_count_def print_def shell_def discard_def
  try_except_def

lemma bind_ret [simp]: "bind (ret x) f = f x"
  by (simp add: bind_def ret_def)

lemma bind_Inr:
  "bind m f h = (Inr y, h'') \<longleftrightarrow> (\<exists>x h'. m h = (Inr x, h') \<and> f x h' = (Inr y, h''))"
  by (auto simp: bind_def split: prod.splits sum.splits)

lemma invoke_Inr:
  "invoke c f h = (Inr x, h') \<longleftrightarrow> f h = Inr x \<and> h' = h @ [(c, Returned)]"
  by (auto simp: invoke_def split: sum.splits)

lemma for_range_submit:
  "for_range n (submit p d) ex h =
     (Inr (ex\<lparr>work_queue := work_queue ex @ replicate n (p, d)\<rparr>),
      h @ replicate n (Submit p d, Returned))"
proof (induction n arbitrary: ex h)
  case 0
  then show ?case by (simp add: ret_def)
next
  case (Suc n)
  have "submit p d ex h = (Inr (ex\<lparr>work_queue := work_queue ex @ [(p, d)]\<rparr>), h @ [(Submit p d, Returned)])"
    by (simp add: submit_def bind_def invoke_def ret_def)
  with Suc show ?case
    by (simp add: bind_def replicate_app_Cons_same)
qed

lemma run_tasks_replicate:
  "\<exists>t. run_tasks s (replicate n (p, d)) h = (Inr (), h @ t)
      \<and> map fst t = replicate n (WorkerPredict p d)"
proof (induction n arbitrary: h)
  case 0
  then show ?case by (simp add: ret_def)
next
  case (Suc n)
  let ?ev = "(WorkerPredict p d, case sdk_predict s h p d of Inl e \<Rightarrow> Raised e | Inr _ \<Rightarrow> Returned)"
  from Suc [of "h @ [?ev]"] obtain t where
    "run_tasks s (replicate n (p, d)) (h @ [?ev]) = (Inr (), (h @ [?ev]) @ t)"
    "map fst t = replicate n (WorkerPredict p d)" by blast
  then have "run_tasks s (replicate (Suc n) (p, d)) h = (Inr (), h @ (?ev # t))
     \<and> map fst (?ev # t) = replicate (Suc n) (WorkerPredict p d)"
    by simp
  then show ?case by blast
qed

lemma repeat_request_Inr:
  "repeat_request s n p d h = (Inr u, h') \<Longrightarrow> h' = h @ replicate n (Predict p d, Returned)"
proof (induction n arbitrary: h)
  case 0
  then show ?case by (simp add: repeat_request_def ret_def)
next
  case (Suc n)
  from Suc.prems obtain x where x: "sdk_predict s h p d = Inr x"
    and rest: "repeat_request s n p d (h @ [(Predict p d, Returned)]) = (Inr u, h')"
    by (auto simp: repeat_request_def bind_def predict_def invoke_def ret_def split: sum.splits)
  from Suc.IH [OF rest] show ?case by (simp add: replicate_app_Cons_same)
qed

lemma load_test_run:
  assumes "sdk_cpu_count s h = Some c" "0 < c"
  shows "\<exists>t. load_test s p d h =
      (Inr (), h @ [(Call ''os.cpu_count'' [] [], Returned),
             (Print [PyStr ''workers used for load test: '', PyInt (int c * 5)], Returned),
             (Call ''ThreadPoolExecutor'' [] [(''max_workers'', PyInt (int c * 5))], Returned)]
          @ replicate 200 (Submit p d, Returned) @ t)
      \<and> map fst t = replicate 200 (WorkerPredict p d)"
proof -
  let ?h3 = "h @ [(Call ''os.cpu_count'' [] [], Returned),
             (Print [PyStr ''workers used for load test: '', PyInt (int c * 5)], Returned),
             (Call ''ThreadPoolExecutor'' [] [(''max_workers'', PyInt (int c * 5))], Returned)]"
  obtain t where t: "run_tasks s (replicate 200 (p, d)) (?h3 @ replicate 200 (Submit p d, Returned))
       = (Inr (), (?h3 @ replicate 200 (Submit p d, Returned)) @ t)"
     "map fst t = replicate 200 (WorkerPredict p d)"
    using run_tasks_replicate by blast
  have "load_test s p d h = (Inr (), (?h3 @ replicate 200 (Submit p d, Returned)) @ t)"
    using assms t(1)
    by (simp add: load_test_def cpu_count_def print_def ThreadPoolExecutor_def shutdown_def
        bind_def invoke_def lift_def ret_def for_range_submit)
  with t(2) show ?thesis by auto
qed


lemma ret_apply [simp]: "ret x h = (Inr x, h)"
  by (simp add: ret_def)

lemma lift_Inr [simp]: "lift r h = (Inr x, h') \<longleftrightarrow> r = Inr x \<and> h' = h"
  by (auto simp: lift_def)

lemma call_Inr:
  "call s f as kw h = (Inr x, h') \<longleftrightarrow>
     sdk_call s h f as kw = Inr x \<and> h' = h @ [(Call f as kw, Returned)]"
  by (simp add: call_def invoke_Inr)

lemma deploy_Inr:
  "deploy s m as kw h = (Inr p, h') \<longleftrightarrow>
     sdk_deploy s h m as kw = Inr p \<and> h' = h @ [(Deploy m as kw, Created p)]"
  by (auto simp: deploy_def split: sum.splits)

lemma predict_Inr:
  "predict s p d h = (Inr x, h') \<longleftrightarrow>
     sdk_predict s h p d = Inr x \<and> h' = h @ [(Predict p d, Returned)]"
  by (simp add: predict_def invoke_Inr)

lemma delete_model_Inr:
  "delete_model s p h = (Inr x, h') \<longleftrightarrow>
     sdk_delete_model s h p = Inr x \<and> h' = h @ [(DeleteModel p, Returned)]"
  by (simp add: delete_model_def invoke_Inr)

lemma delete_endpoint_Inr:
  "delete_endpoint s p h = (Inr x, h') \<longleftrightarrow>
     sdk_delete_endpoint s h p = Inr x \<and> h' = h @ [(DeleteEndpoint p, Returned)]"
  by (simp add: delete_endpoint_def invoke_Inr)

lemma uuid4_apply [simp]: "uuid4 s h = (Inr (sdk_uuid4 s h), h @ [(Call ''uuid4'' [] [], Returned)])"
  by (simp add: uuid4_def invoke_def)

lemma print_apply [simp]: "print ps h = (Inr (), h @ [(Print ps, Returned)])"
  by (simp add: print_def invoke_def)

lemma shell_apply [simp]: "shell c h = (Inr (), h @ [(Shell c, Returned)])"
  by (simp add: shell_def invoke_def)

lemma discard_apply [simp]: "discard v h = (Inr (), h)"
  by (simp add: discard_def)

lemmas success = bind_Inr call_Inr deploy_Inr predict_Inr delete_model_Inr delete_endpoint_Inr

lemma load_test_Inr:
  assumes "load_test s p d h = (Inr u, h')"
  shows "\<exists>c t. sdk_cpu_count s h = Some c \<and> 0 < c \<and>
      h' = h @ [(Call ''os.cpu_count'' [] [], Returned),
             (Print [PyStr ''workers used for load test: '', PyInt (int c * 5)], Returned),
             (Call ''ThreadPoolExecutor'' [] [(''max_workers'', PyInt (int c * 5))], Returned)]
          @ replicate 200 (Submit p d, Returned) @ t
      \<and> map fst t = replicate 200 (WorkerPredict p d)"
proof (cases "sdk_cpu_count s h")
  case None
  with assms show ?thesis
    by (simp add: load_test_def cpu_count_def bind_def invoke_def lift_def)
next
  case (Some c)
  show ?thesis
  proof (cases "c = 0")
    case True
    with Some assms show ?thesis
      by (simp add: load_test_def cpu_count_def ThreadPoolExecutor_def bind_def invoke_def lift_def)
  next
    case False
    with Some load_test_run [of s h c p d] assms show ?thesis by auto
  qed
qed



lemma create_model_Inr:
  assumes "create_model s hub h = (Inr (name, model), h')"
  shows "\<exists>role. h' = h @
        [(Call ''sagemaker.get_execution_role'' [] [], Returned),
         (Call ''uuid4'' [] [], Returned),
         (Call ''HuggingFaceModel'' []
            [(''env'', PyDict hub), (''role'', role), (''name'', PyStr name),
             (''transformers_version'', PyStr ''4.11''), (''pytorch_version'', PyStr ''1.9''),
             (''py_version'', PyStr ''py38'')], Returned)]"
  using assms by (auto simp: create_model_def success)

lemma deploy_endpoint_Inr:
  assumes "deploy_endpoint s model h = (Inr (p, region), h')"
  shows "region = boto_region_name (sagemaker_session p) \<and>
    h' = h @ [(Deploy model []
            [(''initial_instance_count'', PyInt 1), (''instance_type'', PyStr ''ml.c5.large'')],
          Created p)]"
  using assms by (auto simp: deploy_endpoint_def success)

lemma example_request_Inr:
  assumes "example_request s p h = (Inr d, h')"
  shows "d = finbert_data \<and> h' = h @ [(Predict p finbert_data, Returned)]"
  using assms by (auto simp: example_request_def success)

lemma configure_autoscaling_Inr:
  assumes "configure_autoscaling s p h = (Inr u, h')"
  shows "\<exists>asg_client. h' = h @
        [(Call ''boto3.client'' [PyStr ''application-autoscaling''] [], Returned),
         (Call ''register_scalable_target'' [asg_client]
            [(''ServiceNamespace'', PyStr ''sagemaker''),
             (''ResourceId'', PyStr (''endpoint/'' @ endpoint_name p @ ''/variant/AllTraffic'')),
             (''ScalableDimension'', PyStr ''sagemaker:variant:DesiredInstanceCount''),
             (''MinCapacity'', PyInt 1),
             (''MaxCapacity'', PyInt 4)], Returned),
         (Call ''put_scaling_policy'' [asg_client]
            [(''PolicyName'', PyStr (''CPUUtil-ScalingPolicy-'' @ endpoint_name p)),
             (''ServiceNamespace'', PyStr ''sagemaker''),
             (''ResourceId'', PyStr (''endpoint/'' @ endpoint_name p @ ''/variant/AllTraffic'')),
             (''ScalableDimension'', PyStr ''sagemaker:variant:DesiredInstanceCount''),
             (''PolicyType'', PyStr ''TargetTrackingScaling''),
             (''TargetTrackingScalingPolicyConfiguration'', PyDict
               [(''TargetValue'', PyFloat 50),
                (''CustomizedMetricSpecification'', PyDict
                  [(''MetricName'', PyStr ''CPUUtilization''),
                   (''Namespace'', PyStr ''/aws/sagemaker/Endpoints''),
                   (''Dimensions'', PyList
                     [PyDict [(''Name'', PyStr ''EndpointName''),
                              (''Value'', PyStr (endpoint_name p))],
                      PyDict [(''Name'', PyStr ''VariantName''),
                              (''Value'', PyStr ''AllTraffic'')]]),
                   (''Statistic'', PyStr ''Average''),
                   (''Unit'', PyStr ''Percent'')]),
                (''ScaleInCooldown'', PyInt 300),
                (''ScaleOutCooldown'', PyInt 100)])], Returned)]"
  using assms
  by (auto simp: configure_autoscaling_def register_scalable_target_def put_scaling_policy_def
      success)

lemma describe_endpoint_Inr:
  assumes "describe_endpoint s p h = (Inr u, h')"
  shows "\<exists>bt_sm pieces. h' = h @
        [(Call ''boto3.client'' [PyStr ''sagemaker''] [], Returned),
         (Call ''describe_endpoint'' [bt_sm] [(''EndpointName'', PyStr (endpoint_name p))],
          Returned),
         (Print pieces, Returned)]"
  using assms by (auto simp: describe_endpoint_def success)

lemma autoscaling_notebook_trace:
  assumes "autoscaling_notebook s [] = (Inr u, h)"
  shows "\<exists>role name model p asg_client bt_sm pieces c t.
    0 < c \<and> map fst t = replicate 200 (WorkerPredict p finbert_data) \<and>
    h = [(Shell (''pip install '' @ [CHR 0x22] @ ''sagemaker>=2.66.2'' @ [CHR 0x22] @ '' --upgrade''),
          Returned),
         (Call ''sagemaker.get_execution_role'' [] [], Returned),
         (Call ''uuid4'' [] [], Returned),
         (Call ''HuggingFaceModel'' []
            [(''env'', PyDict finbert_hub), (''role'', role), (''name'', PyStr name),
             (''transformers_version'', PyStr ''4.11''), (''pytorch_version'', PyStr ''1.9''),
             (''py_version'', PyStr ''py38'')], Returned),
         (Deploy model []
            [(''initial_instance_count'', PyInt 1), (''instance_type'', PyStr ''ml.c5.large'')],
          Created p),
         (Predict p finbert_data, Returned)]
      @ replicate 500 (Predict p finbert_data, Returned)
      @ [(Print [PyStr (latency_dashboard_url (boto_region_name (sagemaker_session p)) p)],
          Returned),
         (Call ''boto3.client'' [PyStr ''application-autoscaling''] [], Returned),
         (Call ''register_scalable_target'' [asg_client]
            [(''ServiceNamespace'', PyStr ''sagemaker''),
             (''ResourceId'', PyStr (''endpoint/'' @ endpoint_name p @ ''/variant/AllTraffic'')),
             (''ScalableDimension'', PyStr ''sagemaker:variant:DesiredInstanceCount''),
             (''MinCapacity'', PyInt 1),
             (''MaxCapacity'', PyInt 4)], Returned),
         (Call ''put_scaling_policy'' [asg_client]
            [(''PolicyName'', PyStr (''CPUUtil-ScalingPolicy-'' @ endpoint_name p)),
             (''ServiceNamespace'', PyStr ''sagemaker''),
             (''ResourceId'', PyStr (''endpoint/'' @ endpoint_name p @ ''/variant/AllTraffic'')),
             (''ScalableDimension'', PyStr ''sagemaker:variant:DesiredInstanceCount''),
             (''PolicyType'', PyStr ''TargetTrackingScaling''),
             (''TargetTrackingScalingPolicyConfiguration'', PyDict
               [(''TargetValue'', PyFloat 50),
                (''CustomizedMetricSpecification'', PyDict
                  [(''MetricName'', PyStr ''CPUUtilization''),
                   (''Namespace'', PyStr ''/aws/sagemaker/Endpoints''),
                   (''Dimensions'', PyList
                     [PyDict [(''Name'', PyStr ''EndpointName''),
                              (''Value'', PyStr (endpoint_name p))],
                      PyDict [(''Name'', PyStr ''VariantName''),
                              (''Value'', PyStr ''AllTraffic'')]]),
                   (''Statistic'', PyStr ''Average''),
                   (''Unit'', PyStr ''Percent'')]),
                (''ScaleInCooldown'', PyInt 300),
                (''ScaleOutCooldown'', PyInt 100)])], Returned),
         (Call ''os.cpu_count'' [] [], Returned),
         (Print [PyStr ''workers used for load test: '', PyInt (int c * 5)], Returned),
         (Call ''ThreadPoolExecutor'' [] [(''max_workers'', PyInt (int c * 5))], Returned)]
      @ replicate 200 (Submit p finbert_data, Returned) @ t
      @ [(Print [PyStr (cpu_dashboard_url (boto_region_name (sagemaker_session p)) p)], Returned),
         (Call ''boto3.client'' [PyStr ''sagemaker''] [], Returned),
         (Call ''describe_endpoint'' [bt_sm] [(''EndpointName'', PyStr (endpoint_name p))],
          Returned),
         (Print pieces, Returned),
         (DeleteEndpoint p, Returned)]"
proof -
  from assms obtain name model h1 p region h2 d h3 h4 h5 h6 h7 h8 where
    c1: "create_model s finbert_hub
           [(Shell (''pip install '' @ [CHR 0x22] @ ''sagemaker>=2.66.2'' @ [CHR 0x22] @ '' --upgrade''),
             Returned)] = (Inr (name, model), h1)"
    and c2: "deploy_endpoint s model h1 = (Inr (p, region), h2)"
    and c3: "example_request s p h2 = (Inr d, h3)"
    and c4: "repeat_request s 500 p d h3 = (Inr (), h4)"
    and c5: "configure_autoscaling s p
              (h4 @ [(Print [PyStr (latency_dashboard_url region p)], Returned)]) = (Inr (), h5)"
    and c6: "load_test s p d h5 = (Inr (), h6)"
    and c7: "describe_endpoint s p
              (h6 @ [(Print [PyStr (cpu_dashboard_url region p)], Returned)]) = (Inr (), h7)"
    and c8: "delete_endpoint s p h7 = (Inr u, h)"
    by (auto simp: autoscaling_notebook_def bind_Inr install_sagemaker_def
        show_latency_dashboard_def show_cpu_dashboard_def autoscaling_cleanup_def)
  from create_model_Inr [OF c1] obtain role where t1: "h1 =
        [(Shell (''pip install '' @ [CHR 0x22] @ ''sagemaker>=2.66.2'' @ [CHR 0x22] @ '' --upgrade''),
             Returned)] @
        [(Call ''sagemaker.get_execution_role'' [] [], Returned),
         (Call ''uuid4'' [] [], Returned),
         (Call ''HuggingFaceModel'' []
            [(''env'', PyDict finbert_hub), (''role'', role), (''name'', PyStr name),
             (''transformers_version'', PyStr ''4.11''), (''pytorch_version'', PyStr ''1.9''),
             (''py_version'', PyStr ''py38'')], Returned)]"
    by (elim exE)
  note t2 = deploy_endpoint_Inr [OF c2] and t3 = example_request_Inr [OF c3]
  from t3 c4 have t4: "h4 = h3 @ replicate 500 (Predict p finbert_data, Returned)"
    by (auto dest: repeat_request_Inr)
  from configure_autoscaling_Inr [OF c5] obtain asg_client where t5: "h5 =
      (h4 @ [(Print [PyStr (latency_dashboard_url region p)], Returned)]) @
        [(Call ''boto3.client'' [PyStr ''application-autoscaling''] [], Returned),
         (Call ''register_scalable_target'' [asg_client]
            [(''ServiceNamespace'', PyStr ''sagemaker''),
             (''ResourceId'', PyStr (''endpoint/'' @ endpoint_name p @ ''/variant/AllTraffic'')),
             (''ScalableDimension'', PyStr ''sagemaker:variant:DesiredInstanceCount''),
             (''MinCapacity'', PyInt 1),
             (''MaxCapacity'', PyInt 4)], Returned),
         (Call ''put_scaling_policy'' [asg_client]
            [(''PolicyName'', PyStr (''CPUUtil-ScalingPolicy-'' @ endpoint_name p)),
             (''ServiceNamespace'', PyStr ''sagemaker''),
             (''ResourceId'', PyStr (''endpoint/'' @ endpoint_name p @ ''/variant/AllTraffic'')),
             (''ScalableDimension'', PyStr ''sagemaker:variant:DesiredInstanceCount''),
             (''PolicyType'', PyStr ''TargetTrackingScaling''),
             (''TargetTrackingScalingPolicyConfiguration'', PyDict
               [(''TargetValue'', PyFloat 50),
                (''CustomizedMetricSpecification'', PyDict
                  [(''MetricName'', PyStr ''CPUUtilization''),
                   (''Namespace'', PyStr ''/aws/sagemaker/Endpoints''),
                   (''Dimensions'', PyList
                     [PyDict [(''Name'', PyStr ''EndpointName''),
                              (''Value'', PyStr (endpoint_name p))],
                      PyDict [(''Name'', PyStr ''VariantName''),
                              (''Value'', PyStr ''AllTraffic'')]]),
                   (''Statistic'', PyStr ''Average''),
                   (''Unit'', PyStr ''Percent'')]),
                (''ScaleInCooldown'', PyInt 300),
                (''ScaleOutCooldown'', PyInt 100)])], Returned)]"
    by (elim exE)
  from load_test_Inr [OF c6] t3 obtain c t where c: "0 < c"
    and t: "map fst t = replicate 200 (WorkerPredict p finbert_data)"
    and t6: "h6 = h5 @ [(Call ''os.cpu_count'' [] [], Returned),
             (Print [PyStr ''workers used for load test: '', PyInt (int c * 5)], Returned),
             (Call ''ThreadPoolExecutor'' [] [(''max_workers'', PyInt (int c * 5))], Returned)]
          @ replicate 200 (Submit p finbert_data, Returned) @ t"
    by (elim exE conjE) simp
  from describe_endpoint_Inr [OF c7] obtain bt_sm pieces where t7: "h7 =
      (h6 @ [(Print [PyStr (cpu_dashboard_url region p)], Returned)]) @
        [(Call ''boto3.client'' [PyStr ''sagemaker''] [], Returned),
         (Call ''describe_endpoint'' [bt_sm] [(''EndpointName'', PyStr (endpoint_name p))],
          Returned),
         (Print pieces, Returned)]"
    by (elim exE)
  from c8 have t8: "h = h7 @ [(DeleteEndpoint p, Returned)]"
    by (simp add: delete_endpoint_Inr)
  show ?thesis
    apply (rule exI [of _ role], rule exI [of _ name], rule exI [of _ model], rule exI [of _ p])
    apply (rule exI [of _ asg_client], rule exI [of _ bt_sm], rule exI [of _ pieces])
    apply (rule exI [of _ c], rule exI [of _ t])
    using c t t1 t2 t3 t4 t5 t6 t7 t8 apply simp
    done
qed

subsection \<open>What the observations see of a piece of history\<close>

lemma concat_map_Nil: "(\<And>x. x \<in> set xs \<Longrightarrow> f x = []) \<Longrightarrow> concat (map f xs) = []"
  by (induction xs) auto

lemma worker_segment:
  assumes "map fst t = replicate n (WorkerPredict p d)"
  shows "ev \<in> set t \<Longrightarrow> fst ev = WorkerPredict p d"
proof -
  assume "ev \<in> set t"
  then have "fst ev \<in> set (map fst t)" by simp
  with assms show ?thesis by simp
qed

lemma worker_segment_obs:
  assumes "map fst t = replicate n (WorkerPredict p d)"
  shows "submissions t = []" and "calls_of f t = []" and "lifecycle t = []"
    and "filter worker_event t = t"
proof -
  have *: "\<And>ev. ev \<in> set t \<Longrightarrow> \<exists>out. ev = (WorkerPredict p d, out)"
    using worker_segment [OF assms] by (metis prod.collapse)
  show "submissions t = []"
    unfolding submissions_def by (rule concat_map_Nil) (auto dest: *)
  show "calls_of f t = []"
    unfolding calls_of_def by (rule concat_map_Nil) (auto dest: *)
  show "lifecycle t = []"
    unfolding lifecycle_def by (rule concat_map_Nil) (auto dest: *)
  show "filter worker_event t = t"
    by (rule filter_True) (auto dest: *)
qed

lemma obs_append [simp]:
  "submissions (a @ b) = submissions a @ submissions b"
  "calls_of f (a @ b) = calls_of f a @ calls_of f b"
  "lifecycle (a @ b) = lifecycle a @ lifecycle b"
  by (simp_all add: submissions_def calls_of_def lifecycle_def)

lemma obs_Cons [simp]:
  "submissions (ev # b) = submission_of ev @ submissions b"
  "calls_of f (ev # b) = call_of f ev @ calls_of f b"
  "lifecycle (ev # b) = lifecycle_of ev @ lifecycle b"
  by (simp_all add: submissions_def calls_of_def lifecycle_def)

lemma obs_Nil [simp]: "submissions [] = []" "calls_of f [] = []" "lifecycle [] = []"
  by (simp_all add: submissions_def calls_of_def lifecycle_def)

lemma obs_replicate [simp]:
  "submissions (replicate n (Submit p d, out)) = replicate n (p, d)"
  "submissions (replicate n (Predict p d, out)) = []"
  "calls_of f (replicate n (Submit p d, out)) = []"
  "calls_of f (replicate n (Predict p d, out)) = []"
  "lifecycle (replicate n (Submit p d, out)) = []"
  "lifecycle (replicate n (Predict p d, out)) = []"
  by (induction n) (simp_all add: submissions_def calls_of_def lifecycle_def)

lemma filter_worker_replicate [simp]:
  "filter worker_event (replicate n (Submit p d, out)) = []"
  "filter worker_event (replicate n (Predict p d, out)) = []"
  by (induction n) simp_all

subsection \<open>The load test\<close>

text \<open>
  Claim C8. When the CPU count is known and positive, the load test runs to its end;
  it creates one thread pool, with \<open>max_workers\<close> five times the CPU count; it gives
  the pool exactly 200 tasks, each \<open>predictor.predict\<close> on the same payload, and
  nothing else; and the pool's workers run those 200 predictions.
\<close>

theorem load_test_submits_200_predictions:
  assumes "sdk_cpu_count s h = Some c" and "0 < c"
  shows "\<exists>t. load_test s predictor data h = (Inr (), h @ t)
       \<and> calls_of ''ThreadPoolExecutor'' t = [([], [(''max_workers'', PyInt (5 * int c))])]
       \<and> submissions t = replicate 200 (predictor, data)
       \<and> map fst (filter worker_event t) = replicate 200 (WorkerPredict predictor data)"
proof -
  from load_test_run [OF assms, of predictor data] obtain t where
    run: "load_test s predictor data h =
      (Inr (), h @ [(Call ''os.cpu_count'' [] [], Returned),
             (Print [PyStr ''workers used for load test: '', PyInt (int c * 5)], Returned),
             (Call ''ThreadPoolExecutor'' [] [(''max_workers'', PyInt (int c * 5))], Returned)]
          @ replicate 200 (Submit predictor data, Returned) @ t)"
    and t: "map fst t = replicate 200 (WorkerPredict predictor data)"
    by blast
  let ?t = "[(Call ''os.cpu_count'' [] [], Returned),
             (Print [PyStr ''workers used for load test: '', PyInt (int c * 5)], Returned),
             (Call ''ThreadPoolExecutor'' [] [(''max_workers'', PyInt (int c * 5))], Returned)]
          @ replicate 200 (Submit predictor data, Returned) @ t"
  have "load_test s predictor data h = (Inr (), h @ ?t)"
    using run by simp
  moreover have "calls_of ''ThreadPoolExecutor'' ?t = [([], [(''max_workers'', PyInt (5 * int c))])]"
    by (simp add: worker_segment_obs [OF t] mult.commute)
  moreover have "submissions ?t = replicate 200 (predictor, data)"
    by (simp add: worker_segment_obs [OF t])
  moreover have "map fst (filter worker_event ?t) = replicate 200 (WorkerPredict predictor data)"
    by (simp add: worker_segment_obs [OF t] t)
  ultimately show ?thesis by blast
qed

theorem load_test_submits_200_predictions_witness:
  "\<exists>t. load_test sample_sdk
          \<lparr>endpoint_name = ''finbert'', sagemaker_session = \<lparr>boto_region_name = ''eu-west-1''\<rparr>\<rparr>
          finbert_data [] = (Inr (), t)
       \<and> calls_of ''ThreadPoolExecutor'' t = [([], [(''max_workers'', PyInt 20)])]
       \<and> submissions t = replicate 200
            (\<lparr>endpoint_name = ''finbert'', sagemaker_session = \<lparr>boto_region_name = ''eu-west-1''\<rparr>\<rparr>,
             finbert_data)"
  using load_test_submits_200_predictions [of sample_sdk "[]" 4
    "\<lparr>endpoint_name = ''finbert'', sagemaker_session = \<lparr>boto_region_name = ''eu-west-1''\<rparr>\<rparr>"
    finbert_data]
  by (auto simp: sample_sdk_def)

subsection \<open>The endpoint name\<close>









lemma model_names_simps [simp]:
  "model_names [] = []" "model_names (h @ t) = model_names h @ model_names t"
  "model_names (ev # t) = model_name_of ev @ model_names t"
  by (simp_all add: model_names_def)





text \<open>
  An id with a second \<open>/\<close>, a form that the hub does not give: the name keeps the piece
  up to the second \<open>/\<close> only.
\<close>

lemma endpoint_name_of_nested_id:
  "fst (create_model sample_sdk [(''HF_MODEL_ID'', PyStr ''org/team/model'')] []) =
     Inr (''team-73d26f97-9376-4b3f-9334-a2b5a77f4f3e'', PyObj ''HuggingFaceModel'' [])"
  by (simp add: create_model_def bind_def call_def invoke_def lift_def index_def
      sample_sdk_def)

lemma repeat_request_run:
  assumes "\<And>h. \<exists>x. sdk_predict s h p d = Inr x"
  shows "repeat_request s n p d h = (Inr (), h @ replicate n (Predict p d, Returned))"
proof (induction n arbitrary: h)
  case 0
  then show ?case by (simp add: repeat_request_def)
next
  case (Suc n)
  from assms obtain x where "sdk_predict s h p d = Inr x" by blast
  with Suc [of "h @ [(Predict p d, Returned)]"] show ?case
    by (simp add: repeat_request_def bind_def predict_def invoke_def replicate_app_Cons_same)
qed

lemma sample_create_model: "create_model sample_sdk finbert_hub h =
     (Inr (''finbert-tone-73d26f97-9376-4b3f-9334-a2b5a77f4f3e'', PyObj ''HuggingFaceModel'' []),
      h @ [(Call ''sagemaker.get_execution_role'' [] [], Returned),
       (Call ''uuid4'' [] [], Returned),
       (Call ''HuggingFaceModel'' []
          [(''env'', PyDict finbert_hub),
           (''role'', PyObj ''sagemaker.get_execution_role'' []),
           (''name'', PyStr ''finbert-tone-73d26f97-9376-4b3f-9334-a2b5a77f4f3e''),
           (''transformers_version'', PyStr ''4.11''), (''pytorch_version'', PyStr ''1.9''),
           (''py_version'', PyStr ''py38'')], Returned)])"
    by (simp add: create_model_def bind_def call_def invoke_def lift_def index_def
        sample_sdk_def finbert_hub_def)

lemma sample_deploy_endpoint: "fst (deploy_endpoint sample_sdk m h) =
      Inr (\<lparr>endpoint_name = ''endpoint-'' @ replicate (length h) (CHR ''i''),
            sagemaker_session = \<lparr>boto_region_name = ''eu-west-1''\<rparr>\<rparr>, ''eu-west-1'')"
    by (simp add: deploy_endpoint_def bind_def deploy_def sample_sdk_def)

lemma sample_example_request: "fst (example_request sample_sdk p h) = Inr finbert_data"
    by (simp add: example_request_def bind_def predict_def invoke_def sample_sdk_def)

lemma sample_repeat_request: "fst (repeat_request sample_sdk n p d h) = Inr ()"
    by (subst repeat_request_run) (simp_all add: sample_sdk_def)

lemma sample_configure_autoscaling: "fst (configure_autoscaling sample_sdk p h) = Inr ()"
    by (simp add: configure_autoscaling_def register_scalable_target_def put_scaling_policy_def
        bind_def call_def invoke_def sample_sdk_def)

lemma sample_load_test: "fst (load_test sample_sdk p d h) = Inr ()"
proof -
  have "sdk_cpu_count sample_sdk h = Some 4" by (simp add: sample_sdk_def)
  from load_test_run [OF this, of p d] show ?thesis by auto
qed

lemma sample_describe_endpoint: "fst (describe_endpoint sample_sdk p h) = Inr ()"
    by (simp add: describe_endpoint_def bind_def call_def invoke_def lift_def index_def sample_sdk_def)

lemma sample_delete_endpoint: "fst (delete_endpoint sample_sdk p h) = Inr ()"
    by (simp add: delete_endpoint_def invoke_def sample_sdk_def)

lemma bind_returns:
  assumes "\<exists>x h'. m h = (Inr x, h')" and "\<And>x h. \<exists>y h'. f x h = (Inr y, h')"
  shows "\<exists>y h'. bind m f h = (Inr y, h')"
proof -
  from assms(1) obtain x h' where "m h = (Inr x, h')" by blast
  with assms(2) [of x h'] show ?thesis by (simp add: bind_def)
qed

lemma fst_returns: "fst (m h) = Inr x \<Longrightarrow> \<exists>x h'. m (h::history) = (Inr x, h')"
  by (metis prod.collapse)

lemma autoscaling_notebook_sample: "\<exists>u h. autoscaling_notebook sample_sdk [] = (Inr u, h)"
  unfolding autoscaling_notebook_def
  apply (rule bind_returns, simp add: install_sagemaker_def)
  apply (rule bind_returns, simp add: sample_create_model)
  apply (simp only: split_paired_all prod.case)
  apply (rule bind_returns, rule fst_returns, rule sample_deploy_endpoint)
  apply (simp only: split_paired_all prod.case)
  apply (rule bind_returns, rule fst_returns, rule sample_example_request)
  apply (rule bind_returns, rule fst_returns, rule sample_repeat_request)
  apply (rule bind_returns, simp add: show_latency_dashboard_def)
  apply (rule bind_returns, rule fst_returns, rule sample_configure_autoscaling)
  apply (rule bind_returns, rule fst_returns, rule sample_load_test)
  apply (rule bind_returns, simp add: show_cpu_dashboard_def)
  apply (rule bind_returns, rule fst_returns, rule sample_describe_endpoint)
  apply (simp only: autoscaling_cleanup_def)
  apply (rule fst_returns, rule sample_delete_endpoint)
  done

subsection \<open>The autoscaling configuration\<close>

lemma autoscaling_observations:
  assumes "autoscaling_notebook s [] = (Inr (), h)"
  shows "\<exists>p asg_client.
      lifecycle h = [Up p, Down p]
    \<and> calls_of ''register_scalable_target'' h = [([asg_client],
            [(''ServiceNamespace'', PyStr ''sagemaker''),
             (''ResourceId'', PyStr (''endpoint/'' @ endpoint_name p @ ''/variant/AllTraffic'')),
             (''ScalableDimension'', PyStr ''sagemaker:variant:DesiredInstanceCount''),
             (''MinCapacity'', PyInt 1),
             (''MaxCapacity'', PyInt 4)])]
    \<and> calls_of ''put_scaling_policy'' h = [([asg_client],
            [(''PolicyName'', PyStr (''CPUUtil-ScalingPolicy-'' @ endpoint_name p)),
             (''ServiceNamespace'', PyStr ''sagemaker''),
             (''ResourceId'', PyStr (''endpoint/'' @ endpoint_name p @ ''/variant/AllTraffic'')),
             (''ScalableDimension'', PyStr ''sagemaker:variant:DesiredInstanceCount''),
             (''PolicyType'', PyStr ''TargetTrackingScaling''),
             (''TargetTrackingScalingPolicyConfiguration'', PyDict
               [(''TargetValue'', PyFloat 50),
                (''CustomizedMetricSpecification'', PyDict
                  [(''MetricName'', PyStr ''CPUUtilization''),
                   (''Namespace'', PyStr ''/aws/sagemaker/Endpoints''),
                   (''Dimensions'', PyList
                     [PyDict [(''Name'', PyStr ''EndpointName''),
                              (''Value'', PyStr (endpoint_name p))],
                      PyDict [(''Name'', PyStr ''VariantName''),
                              (''Value'', PyStr ''AllTraffic'')]]),
                   (''Statistic'', PyStr ''Average''),
                   (''Unit'', PyStr ''Percent'')]),
                (''ScaleInCooldown'', PyInt 300),
                (''ScaleOutCooldown'', PyInt 100)])])]"
proof -
  from autoscaling_notebook_trace [OF assms] obtain role name model p asg_client bt_sm pieces c t
    where t: "map fst t = replicate 200 (WorkerPredict p finbert_data)"
      and h: "h = [(Shell (''pip install '' @ [CHR 0x22] @ ''sagemaker>=2.66.2'' @ [CHR 0x22] @ '' --upgrade''),
          Returned),
         (Call ''sagemaker.get_execution_role'' [] [], Returned),
         (Call ''uuid4'' [] [], Returned),
         (Call ''HuggingFaceModel'' []
            [(''env'', PyDict finbert_hub), (''role'', role), (''name'', PyStr name),
             (''transformers_version'', PyStr ''4.11''), (''pytorch_version'', PyStr ''1.9''),
             (''py_version'', PyStr ''py38'')], Returned),
         (Deploy model []
            [(''initial_instance_count'', PyInt 1), (''instance_type'', PyStr ''ml.c5.large'')],
          Created p),
         (Predict p finbert_data, Returned)]
      @ replicate 500 (Predict p finbert_data, Returned)
      @ [(Print [PyStr (latency_dashboard_url (boto_region_name (sagemaker_session p)) p)],
          Returned),
         (Call ''boto3.client'' [PyStr ''application-autoscaling''] [], Returned),
         (Call ''register_scalable_target'' [asg_client]
            [(''ServiceNamespace'', PyStr ''sagemaker''),
             (''ResourceId'', PyStr (''endpoint/'' @ endpoint_name p @ ''/variant/AllTraffic'')),
             (''ScalableDimension'', PyStr ''sagemaker:variant:DesiredInstanceCount''),
             (''MinCapacity'', PyInt 1),
             (''MaxCapacity'', PyInt 4)], Returned),
         (Call ''put_scaling_policy'' [asg_client]
            [(''PolicyName'', PyStr (''CPUUtil-ScalingPolicy-'' @ endpoint_name p)),
             (''ServiceNamespace'', PyStr ''sagemaker''),
             (''ResourceId'', PyStr (''endpoint/'' @ endpoint_name p @ ''/variant/AllTraffic'')),
             (''ScalableDimension'', PyStr ''sagemaker:variant:DesiredInstanceCount''),
             (''PolicyType'', PyStr ''TargetTrackingScaling''),
             (''TargetTrackingScalingPolicyConfiguration'', PyDict
               [(''TargetValue'', PyFloat 50),
                (''CustomizedMetricSpecification'', PyDict
                  [(''MetricName'', PyStr ''CPUUtilization''),
                   (''Namespace'', PyStr ''/aws/sagemaker/Endpoints''),
                   (''Dimensions'', PyList
                     [PyDict [(''Name'', PyStr ''EndpointName''),
                              (''Value'', PyStr (endpoint_name p))],
                      PyDict [(''Name'', PyStr ''VariantName''),
                              (''Value'', PyStr ''AllTraffic'')]]),
                   (''Statistic'', PyStr ''Average''),
                   (''Unit'', PyStr ''Percent'')]),
                (''ScaleInCooldown'', PyInt 300),
                (''ScaleOutCooldown'', PyInt 100)])], Returned),
         (Call ''os.cpu_count'' [] [], Returned),
         (Print [PyStr ''workers used for load test: '', PyInt (int c * 5)], Returned),
         (Call ''ThreadPoolExecutor'' [] [(''max_workers'', PyInt (int c * 5))], Returned)]
      @ replicate 200 (Submit p finbert_data, Returned) @ t
      @ [(Print [PyStr (cpu_dashboard_url (boto_region_name (sagemaker_session p)) p)], Returned),
         (Call ''boto3.client'' [PyStr ''sagemaker''] [], Returned),
         (Call ''describe_endpoint'' [bt_sm] [(''EndpointName'', PyStr (endpoint_name p))],
          Returned),
         (Print pieces, Returned),
         (DeleteEndpoint p, Returned)]"
    by blast
  have life: "lifecycle h = [Up p, Down p]"
    unfolding h by (simp add: worker_segment_obs [OF t])
  have reg: "calls_of ''register_scalable_target'' h = [([asg_client],
            [(''ServiceNamespace'', PyStr ''sagemaker''),
             (''ResourceId'', PyStr (''endpoint/'' @ endpoint_name p @ ''/variant/AllTraffic'')),
             (''ScalableDimension'', PyStr ''sagemaker:variant:DesiredInstanceCount''),
             (''MinCapacity'', PyInt 1),
             (''MaxCapacity'', PyInt 4)])]"
    unfolding h by (simp add: worker_segment_obs [OF t])
  have pol: "calls_of ''put_scaling_policy'' h = [([asg_client],
            [(''PolicyName'', PyStr (''CPUUtil-ScalingPolicy-'' @ endpoint_name p)),
             (''ServiceNamespace'', PyStr ''sagemaker''),
             (''ResourceId'', PyStr (''endpoint/'' @ endpoint_name p @ ''/variant/AllTraffic'')),
             (''ScalableDimension'', PyStr ''sagemaker:variant:DesiredInstanceCount''),
             (''PolicyType'', PyStr ''TargetTrackingScaling''),
             (''TargetTrackingScalingPolicyConfiguration'', PyDict
               [(''TargetValue'', PyFloat 50),
                (''CustomizedMetricSpecification'', PyDict
                  [(''MetricName'', PyStr ''CPUUtilization''),
                   (''Namespace'', PyStr ''/aws/sagemaker/Endpoints''),
                   (''Dimensions'', PyList
                     [PyDict [(''Name'', PyStr ''EndpointName''),
                              (''Value'', PyStr (endpoint_name p))],
                      PyDict [(''Name'', PyStr ''VariantName''),
                              (''Value'', PyStr ''AllTraffic'')]]),
                   (''Statistic'', PyStr ''Average''),
                   (''Unit'', PyStr ''Percent'')]),
                (''ScaleInCooldown'', PyInt 300),
                (''ScaleOutCooldown'', PyInt 100)])])]"
    unfolding h by (simp add: worker_segment_obs [OF t])
  from life reg pol show ?thesis by blast
qed

lemma lifecycle_autoscaling:
  assumes "autoscaling_notebook s [] = (Inr (), h)"
  shows "\<exists>p. lifecycle h = [Up p, Down p]"
  using autoscaling_observations [OF assms] by blast

text \<open>
  Claim C4. In a complete run of the autoscaling notebook one endpoint comes up, and
  \<open>register_scalable_target\<close> is called exactly once: for that endpoint's \<open>AllTraffic\<close>
  variant, on the dimension \<open>sagemaker:variant:DesiredInstanceCount\<close>, with a minimum
  capacity of 1 and a maximum of 4. \<open>put_scaling_policy\<close> is called exactly once, on
  the same resource: a target-tracking policy on the average of the \<open>CPUUtilization\<close>
  metric of that endpoint's \<open>AllTraffic\<close> variant, in percent, with a target value of
  50, a scale-in cooldown of 300 and a scale-out cooldown of 100.
\<close>

theorem autoscaling_configuration:
  assumes "autoscaling_notebook s [] = (Inr (), h)"
  shows "\<exists>p asg_client target policy.
      lifecycle h = [Up p, Down p]
    \<and> calls_of ''register_scalable_target'' h = [([asg_client], target)]
    \<and> map_of target ''ResourceId''
        = Some (PyStr (''endpoint/'' @ endpoint_name p @ ''/variant/AllTraffic''))
    \<and> map_of target ''ScalableDimension'' = Some (PyStr ''sagemaker:variant:DesiredInstanceCount'')
    \<and> map_of target ''MinCapacity'' = Some (PyInt 1)
    \<and> map_of target ''MaxCapacity'' = Some (PyInt 4)
    \<and> calls_of ''put_scaling_policy'' h = [([asg_client], policy)]
    \<and> map_of policy ''ResourceId''
        = Some (PyStr (''endpoint/'' @ endpoint_name p @ ''/variant/AllTraffic''))
    \<and> map_of policy ''ScalableDimension'' = Some (PyStr ''sagemaker:variant:DesiredInstanceCount'')
    \<and> map_of policy ''PolicyType'' = Some (PyStr ''TargetTrackingScaling'')
    \<and> path (PyDict policy) [''TargetTrackingScalingPolicyConfiguration'', ''TargetValue'']
        = Some (PyFloat 50)
    \<and> path (PyDict policy) [''TargetTrackingScalingPolicyConfiguration'',
          ''CustomizedMetricSpecification'', ''MetricName''] = Some (PyStr ''CPUUtilization'')
    \<and> path (PyDict policy) [''TargetTrackingScalingPolicyConfiguration'',
          ''CustomizedMetricSpecification'', ''Statistic''] = Some (PyStr ''Average'')
    \<and> path (PyDict policy) [''TargetTrackingScalingPolicyConfiguration'',
          ''CustomizedMetricSpecification'', ''Unit''] = Some (PyStr ''Percent'')
    \<and> path (PyDict policy) [''TargetTrackingScalingPolicyConfiguration'',
          ''CustomizedMetricSpecification'', ''Dimensions'']
        = Some (PyList
            [PyDict [(''Name'', PyStr ''EndpointName''), (''Value'', PyStr (endpoint_name p))],
             PyDict [(''Name'', PyStr ''VariantName''), (''Value'', PyStr ''AllTraffic'')]])
    \<and> path (PyDict policy) [''TargetTrackingScalingPolicyConfiguration'', ''ScaleInCooldown'']
        = Some (PyInt 300)
    \<and> path (PyDict policy) [''TargetTrackingScalingPolicyConfiguration'', ''ScaleOutCooldown'']
        = Some (PyInt 100)"
proof -
  from autoscaling_observations [OF assms] obtain p asg_client where
    life: "lifecycle h = [Up p, Down p]"
    and reg: "calls_of ''register_scalable_target'' h = [([asg_client],
            [(''ServiceNamespace'', PyStr ''sagemaker''),
             (''ResourceId'', PyStr (''endpoint/'' @ endpoint_name p @ ''/variant/AllTraffic'')),
             (''ScalableDimension'', PyStr ''sagemaker:variant:DesiredInstanceCount''),
             (''MinCapacity'', PyInt 1),
             (''MaxCapacity'', PyInt 4)])]"
    and pol: "calls_of ''put_scaling_policy'' h = [([asg_client],
            [(''PolicyName'', PyStr (''CPUUtil-ScalingPolicy-'' @ endpoint_name p)),
             (''ServiceNamespace'', PyStr ''sagemaker''),
             (''ResourceId'', PyStr (''endpoint/'' @ endpoint_name p @ ''/variant/AllTraffic'')),
             (''ScalableDimension'', PyStr ''sagemaker:variant:DesiredInstanceCount''),
             (''PolicyType'', PyStr ''TargetTrackingScaling''),
             (''TargetTrackingScalingPolicyConfiguration'', PyDict
               [(''TargetValue'', PyFloat 50),
                (''CustomizedMetricSpecification'', PyDict
                  [(''MetricName'', PyStr ''CPUUtilization''),
                   (''Namespace'', PyStr ''/aws/sagemaker/Endpoints''),
                   (''Dimensions'', PyList
                     [PyDict [(''Name'', PyStr ''EndpointName''),
                              (''Value'', PyStr (endpoint_name p))],
                      PyDict [(''Name'', PyStr ''VariantName''),
                              (''Value'', PyStr ''AllTraffic'')]]),
                   (''Statistic'', PyStr ''Average''),
                   (''Unit'', PyStr ''Percent'')]),
                (''ScaleInCooldown'', PyInt 300),
                (''ScaleOutCooldown'', PyInt 100)])])]"
    by blast
  show ?thesis
    apply (rule exI [of _ p], rule exI [of _ asg_client])
    apply (intro exI conjI)
                    apply (rule life)
                   apply (rule reg)
                  apply simp_all
     apply (rule pol)
    apply simp_all
    done
qed


theorem autoscaling_configuration_witness:
  "\<exists>h p asg_client target policy.
      autoscaling_notebook sample_sdk [] = (Inr (), h)
    \<and> lifecycle h = [Up p, Down p]
    \<and> calls_of ''register_scalable_target'' h = [([asg_client], target)]
    \<and> map_of target ''MinCapacity'' = Some (PyInt 1)
    \<and> map_of target ''MaxCapacity'' = Some (PyInt 4)
    \<and> calls_of ''put_scaling_policy'' h = [([asg_client], policy)]
    \<and> path (PyDict policy) [''TargetTrackingScalingPolicyConfiguration'', ''TargetValue'']
        = Some (PyFloat 50)"
proof -
  from autoscaling_notebook_sample obtain h where
    run: "autoscaling_notebook sample_sdk [] = (Inr (), h)" by auto
  from autoscaling_configuration [OF run] show ?thesis
    using run by blast
qed

subsection \<open>Code that emits only events of a kind\<close>

lemma emitsI: "(\<And>h. \<exists>t. snd (m h) = h @ t \<and> list_all S t) \<Longrightarrow> emits S m"
  by (simp add: emits_def)

lemma emitsD: "emits S m \<Longrightarrow> m h = (r, h') \<Longrightarrow> \<exists>t. h' = h @ t \<and> list_all S t"
  by (auto simp: emits_def dest!: spec [of _ h])

lemma emits_ret: "emits S (ret x)"
  and emits_raise: "emits S (raise e)"
  and emits_lift: "emits S (lift r)"
  and emits_discard: "emits S (discard v)"
  by (simp_all add: emits_def ret_def raise_def lift_def discard_def)

lemma emits_invoke:
  assumes "S (c, Returned)" and "\<And>e. S (c, Raised e)"
  shows "emits S (invoke c f)"
  using assms by (auto simp: emits_def invoke_def split: sum.splits)

lemma emits_deploy:
  assumes "\<And>p. S (Deploy model as kw, Created p)" and "\<And>e. S (Deploy model as kw, Raised e)"
  shows "emits S (deploy s model as kw)"
  using assms by (auto simp: emits_def deploy_def split: sum.splits)

lemma emits_bind:
  assumes "emits S m" and "\<And>x. emits S (f x)"
  shows "emits S (bind m f)"
proof (rule emitsI)
  fix h
  obtain r h1 where m: "m h = (r, h1)" by (cases "m h")
  from emitsD [OF assms(1) m] obtain t1 where t1: "h1 = h @ t1" "list_all S t1" by blast
  show "\<exists>t. snd (bind m f h) = h @ t \<and> list_all S t"
  proof (cases r)
    case (Inl e)
    with m t1 show ?thesis by (auto simp: bind_def)
  next
    case (Inr x)
    obtain r2 h2 where f: "f x h1 = (r2, h2)" by (cases "f x h1")
    from emitsD [OF assms(2) f] obtain t2 where "h2 = h1 @ t2" "list_all S t2" by blast
    with Inr m t1 f have "snd (bind m f h) = h @ (t1 @ t2) \<and> list_all S (t1 @ t2)"
      by (simp add: bind_def)
    then show ?thesis by blast
  qed
qed

lemma emits_case_prod:
  assumes "\<And>a b. emits S (f a b)"
  shows "emits S (case x of (a, b) \<Rightarrow> f a b)"
  using assms by (cases x) simp

lemma emits_if:
  assumes "emits S m" and "emits S n"
  shows "emits S (if b then m else n)"
  using assms by simp

lemma emits_try_except:
  assumes "emits S body" and "emits S handler"
  shows "emits S (try_except body exc handler)"
proof (rule emitsI)
  fix h
  obtain r h1 where b: "body h = (r, h1)" by (cases "body h")
  from emitsD [OF assms(1) b] obtain t1 where t1: "h1 = h @ t1" "list_all S t1" by blast
  show "\<exists>t. snd (try_except body exc handler h) = h @ t \<and> list_all S t"
  proof (cases "r = Inl exc")
    case True
    obtain r2 h2 where hd: "handler h1 = (r2, h2)" by (cases "handler h1")
    from emitsD [OF assms(2) hd] obtain t2 where "h2 = h1 @ t2" "list_all S t2" by blast
    with True b t1 hd have "snd (try_except body exc handler h) = h @ (t1 @ t2) \<and> list_all S (t1 @ t2)"
      by (simp add: try_except_def)
    then show ?thesis by blast
  next
    case False
    with b t1 show ?thesis by (auto simp: try_except_def split: sum.splits)
  qed
qed

lemma emits_for_range:
  assumes "\<And>s. emits S (body s)"
  shows "emits S (for_range n body s)"
proof (induction n arbitrary: s)
  case 0
  show ?case unfolding for_range.simps by (rule emits_ret)
next
  case (Suc n)
  show ?case unfolding for_range.simps by (rule emits_bind) (rule assms, rule Suc)
qed

lemma emits_run_tasks:
  assumes "\<And>p d out. (p, d) \<in> set ts \<Longrightarrow> S (WorkerPredict p d, out)"
  shows "emits S (run_tasks s ts)"
  using assms
proof (induction ts)
  case Nil
  show ?case unfolding run_tasks.simps by (rule emits_ret)
next
  case (Cons a ts)
  obtain p d where a: "a = (p, d)" by (cases a)
  from Cons have IH: "emits S (run_tasks s ts)" by simp
  show ?case
  proof (rule emitsI)
    fix h
    let ?ev = "(WorkerPredict p d, case sdk_predict s h p d of Inl e \<Rightarrow> Raised e | Inr _ \<Rightarrow> Returned)"
    obtain r h' where r: "run_tasks s ts (h @ [?ev]) = (r, h')" by (cases "run_tasks s ts (h @ [?ev])")
    from emitsD [OF IH r] obtain t where "h' = (h @ [?ev]) @ t" "list_all S t" by blast
    moreover have "S ?ev" using Cons.prems [of p d] a by simp
    ultimately have "snd (run_tasks s (a # ts) h) = h @ (?ev # t) \<and> list_all S (?ev # t)"
      using a r by simp
    then show "\<exists>t. snd (run_tasks s (a # ts) h) = h @ t \<and> list_all S t" by blast
  qed
qed

lemma emits_load_test:
  assumes "S (Call ''os.cpu_count'' [] [], Returned)"
    and "\<And>ps. S (Print ps, Returned)"
    and "\<And>kw out. S (Call ''ThreadPoolExecutor'' [] kw, out)"
    and "S (Submit p d, Returned)"
    and "\<And>out. S (WorkerPredict p d, out)"
  shows "emits S (load_test s p d)"
proof -
  have sub: "\<And>ex. set (work_queue ex) \<subseteq> {(p, d)} \<Longrightarrow> emits S (shutdown s ex)"
    unfolding shutdown_def by (rule emits_run_tasks) (use assms(5) in auto)
  have loop: "\<And>ex n h. for_range n (submit p d) ex h =
     (Inr (ex\<lparr>work_queue := work_queue ex @ replicate n (p, d)\<rparr>),
      h @ replicate n (Submit p d, Returned))"
    by (rule for_range_submit)
  show ?thesis
  proof (rule emitsI)
    fix h
    show "\<exists>t. snd (load_test s p d h) = h @ t \<and> list_all S t"
    proof (cases "sdk_cpu_count s h")
      case None
      with assms(1) show ?thesis
        by (simp add: load_test_def cpu_count_def bind_def invoke_def lift_def)
    next
      case (Some c)
      let ?h3 = "h @ [(Call ''os.cpu_count'' [] [], Returned),
             (Print [PyStr ''workers used for load test: '', PyInt (int c * 5)], Returned)]"
      show ?thesis
      proof (cases "c = 0")
        case True
        with Some assms(1,2,3) show ?thesis
          by (simp add: load_test_def cpu_count_def ThreadPoolExecutor_def bind_def invoke_def
              lift_def)
      next
        case False
        let ?ex = "\<lparr>max_workers = int c * 5, work_queue = replicate 200 (p, d)\<rparr>"
        let ?h4 = "?h3 @ [(Call ''ThreadPoolExecutor'' [] [(''max_workers'', PyInt (int c * 5))], Returned)]
            @ replicate 200 (Submit p d, Returned)"
        obtain r h' where r: "shutdown s ?ex ?h4 = (r, h')" by (cases "shutdown s ?ex ?h4")
        have "emits S (shutdown s ?ex)" by (rule sub) simp
        from emitsD [OF this r] obtain t where t: "h' = ?h4 @ t" "list_all S t" by blast
        from Some False r have "load_test s p d h = (r, h')"
          by (simp add: load_test_def cpu_count_def ThreadPoolExecutor_def bind_def invoke_def
              lift_def loop)
        with t assms(1,2,3,4) have "snd (load_test s p d h) =
            h @ ([(Call ''os.cpu_count'' [] [], Returned),
             (Print [PyStr ''workers used for load test: '', PyInt (int c * 5)], Returned),
             (Call ''ThreadPoolExecutor'' [] [(''max_workers'', PyInt (int c * 5))], Returned)]
            @ replicate 200 (Submit p d, Returned) @ t)
          \<and> list_all S ([(Call ''os.cpu_count'' [] [], Returned),
             (Print [PyStr ''workers used for load test: '', PyInt (int c * 5)], Returned),
             (Call ''ThreadPoolExecutor'' [] [(''max_workers'', PyInt (int c * 5))], Returned)]
            @ replicate 200 (Submit p d, Returned) @ t)"
          by (simp add: list_all_iff)
        then show ?thesis by blast
      qed
    qed
  qed
qed

lemma emits_call:
  assumes "\<And>out. S (Call f as kw, out)"
  shows "emits S (call s f as kw)"
  unfolding call_def by (rule emits_invoke) (rule assms)+

lemma emits_predict:
  assumes "\<And>out. S (Predict p d, out)"
  shows "emits S (predict s p d)"
  unfolding predict_def by (rule emits_invoke) (rule assms)+

lemma emits_delete_model:
  assumes "\<And>out. S (DeleteModel p, out)"
  shows "emits S (delete_model s p)"
  unfolding delete_model_def by (rule emits_invoke) (rule assms)+

lemma emits_delete_endpoint:
  assumes "\<And>out. S (DeleteEndpoint p, out)"
  shows "emits S (delete_endpoint s p)"
  unfolding delete_endpoint_def by (rule emits_invoke) (rule assms)+

lemma emits_uuid4:
  assumes "\<And>out. S (Call ''uuid4'' [] [], out)"
  shows "emits S (uuid4 s)"
  unfolding uuid4_def by (rule emits_invoke) (rule assms)+

lemma emits_print:
  assumes "\<And>out. S (Print ps, out)"
  shows "emits S (print ps)"
  unfolding print_def by (rule emits_invoke) (rule assms)+

lemma emits_shell:
  assumes "\<And>out. S (Shell c, out)"
  shows "emits S (shell c)"
  unfolding shell_def by (rule emits_invoke) (rule assms)+

lemmas emits_rules = emits_ret emits_raise emits_lift emits_discard emits_bind emits_case_prod
  emits_if emits_try_except emits_for_range emits_call emits_deploy emits_predict
  emits_delete_model emits_delete_endpoint emits_uuid4 emits_print emits_shell emits_load_test

lemmas inference_options_cells = install_sagemaker_def setup_session_def resolve_role_def HuggingFaceModel_4_17_def
  cleanup_def deploy_rth_def request_rth_def deploy_rts3_def request_rts3_def batch_transform_def
  deploy_async_def request_async_def deploy_sls_def request_sls_def

lemmas distillation_cells = setup_session_def resolve_role_def create_estimator_def fit_def
  deploy_student_def measure_latency_def repeat_request_def show_distillation_dashboard_def
  distillation_cleanup_def performance_chart_def

lemmas autoscaling_cells = install_sagemaker_def create_model_def deploy_endpoint_def example_request_def
  repeat_request_def show_latency_dashboard_def show_cpu_dashboard_def
  register_scalable_target_def put_scaling_policy_def configure_autoscaling_def
  describe_endpoint_def autoscaling_cleanup_def

lemma bind_assoc: "bind (bind m f) g = bind m (\<lambda>x. bind (f x) g)"
  by (auto simp: bind_def fun_eq_iff split: prod.splits sum.splits)

lemmas normalise = bind_assoc bind_ret prod.case

lemma autoscaling_payloads: "emits payload_ok (autoscaling_notebook s)"
  unfolding autoscaling_notebook_def autoscaling_cells
  apply (simp only: normalise)
  apply (intro emits_rules)
  apply (simp_all add: payload_ok_def finbert_data_def)
  done

lemma distillation_payloads: "emits payload_ok (distillation_notebook s)"
  unfolding distillation_notebook_def distillation_cells
  apply (simp only: normalise)
  apply (intro emits_rules)
  apply (simp_all add: payload_ok_def sentiment_input_def)
  done

lemma silent_lifecycle:
  assumes "emits (\<lambda>ev. lifecycle_of ev = []) m" and "m h = (r, h')"
  shows "lifecycle h' = lifecycle h"
proof -
  from emitsD [OF assms] obtain t where t: "h' = h @ t" "list_all (\<lambda>ev. lifecycle_of ev = []) t"
    by blast
  then have "lifecycle t = []"
    unfolding lifecycle_def by (intro concat_map_Nil) (simp add: list_all_iff)
  with t show ?thesis by simp
qed

lemma silent_cells:
  "emits (\<lambda>ev. lifecycle_of ev = []) (setup_session s)"
  "emits (\<lambda>ev. lifecycle_of ev = []) (request_rth s p)"
  "emits (\<lambda>ev. lifecycle_of ev = []) (request_rts3 s p)"
  "emits (\<lambda>ev. lifecycle_of ev = []) (batch_transform s role bucket)"
  "emits (\<lambda>ev. lifecycle_of ev = []) (request_async s p)"
  "emits (\<lambda>ev. lifecycle_of ev = []) (request_sls s p)"
  "emits (\<lambda>ev. lifecycle_of ev = []) (create_estimator s role)"
  "emits (\<lambda>ev. lifecycle_of ev = []) (fit s est)"
  "emits (\<lambda>ev. lifecycle_of ev = []) (measure_latency s p)"
  "emits (\<lambda>ev. lifecycle_of ev = []) (performance_chart s)"
  "emits (\<lambda>ev. lifecycle_of ev = []) (call s f as kw)"
  unfolding inference_options_cells distillation_cells
  by (intro emits_rules; simp)+

lemma deploy_cells:
  "deploy_rth s role h = (Inr p, h') \<Longrightarrow> lifecycle h' = lifecycle h @ [Up p]"
  "deploy_rts3 s role h = (Inr p, h') \<Longrightarrow> lifecycle h' = lifecycle h @ [Up p]"
  "deploy_async s role bucket h = (Inr p, h') \<Longrightarrow> lifecycle h' = lifecycle h @ [Up p]"
  "deploy_sls s role h = (Inr p, h') \<Longrightarrow> lifecycle h' = lifecycle h @ [Up p]"
  "deploy_student s est h = (Inr p, h') \<Longrightarrow> lifecycle h' = lifecycle h @ [Up p]"
  by (auto simp: inference_options_cells distillation_cells success)

lemma cleanup_cells:
  "cleanup s p h = (Inr u, h') \<Longrightarrow> lifecycle h' = lifecycle h @ [ModelDown p, Down p]"
  "distillation_cleanup s p h = (Inr u, h') \<Longrightarrow> lifecycle h' = lifecycle h @ [Down p]"
  by (auto simp: inference_options_cells distillation_cells success)

lemma lifecycle_inference_options:
  assumes "inference_options_notebook s [] = (Inr u, h)"
  shows "\<exists>p1 p2 p3 p4. lifecycle h =
     [Up p1, ModelDown p1, Down p1, Up p2, ModelDown p2, Down p2,
      Up p3, ModelDown p3, Down p3, Up p4, ModelDown p4, Down p4]"
proof -
  from assms obtain h0 role bucket h1 p1 h2 h3 h4 p2 h5 h6 h7 h8 p3 h9 h10 h11 p4 h12 h13
    where c0: "install_sagemaker ''2.48.0'' [] = (Inr (), h0)"
      and c1: "setup_session s h0 = (Inr (role, bucket), h1)"
      and c2: "deploy_rth s role h1 = (Inr p1, h2)"
      and c3: "request_rth s p1 h2 = (Inr (), h3)"
      and c4: "cleanup s p1 h3 = (Inr (), h4)"
      and c5: "deploy_rts3 s role h4 = (Inr p2, h5)"
      and c6: "request_rts3 s p2 h5 = (Inr (), h6)"
      and c7: "cleanup s p2 h6 = (Inr (), h7)"
      and c8: "batch_transform s role bucket h7 = (Inr (), h8)"
      and c9: "deploy_async s role bucket h8 = (Inr p3, h9)"
      and c10: "request_async s p3 h9 = (Inr (), h10)"
      and c11: "cleanup s p3 h10 = (Inr (), h11)"
      and c12: "deploy_sls s role h11 = (Inr p4, h12)"
      and c13: "request_sls s p4 h12 = (Inr (), h13)"
      and c14: "cleanup s p4 h13 = (Inr u, h)"
    by (auto simp: inference_options_notebook_def bind_Inr)
  have "lifecycle h0 = []" using c0 by (auto simp: install_sagemaker_def)
  moreover note silent_lifecycle [OF silent_cells(1) c1] deploy_cells(1) [OF c2]
    silent_lifecycle [OF silent_cells(2) c3] cleanup_cells(1) [OF c4]
    deploy_cells(2) [OF c5] silent_lifecycle [OF silent_cells(3) c6] cleanup_cells(1) [OF c7]
    silent_lifecycle [OF silent_cells(4) c8] deploy_cells(3) [OF c9]
    silent_lifecycle [OF silent_cells(5) c10] cleanup_cells(1) [OF c11]
    deploy_cells(4) [OF c12] silent_lifecycle [OF silent_cells(6) c13] cleanup_cells(1) [OF c14]
  ultimately have "lifecycle h =
     [Up p1, ModelDown p1, Down p1, Up p2, ModelDown p2, Down p2,
      Up p3, ModelDown p3, Down p3, Up p4, ModelDown p4, Down p4]"
    by simp
  then show ?thesis by blast
qed

lemma lifecycle_distillation:
  assumes "distillation_notebook s [] = (Inr u, h)"
  shows "\<exists>p. lifecycle h = [Up p, Down p]"
proof -
  from assms obtain h0 x h1 role bucket h2 est h3 h4 p h5 h6 h7 h8
    where c0: "shell ''pip install sagemaker huggingface_hub --upgrade'' [] = (Inr (), h0)"
      and c1: "call s ''notebook_login'' [] [] h0 = (Inr x, h1)"
      and c2: "setup_session s h1 = (Inr (role, bucket), h2)"
      and c3: "create_estimator s role h2 = (Inr est, h3)"
      and c4: "fit s est h3 = (Inr (), h4)"
      and c5: "deploy_student s est h4 = (Inr p, h5)"
      and c6: "measure_latency s p h5 = (Inr (), h6)"
      and c7: "show_distillation_dashboard p h6 = (Inr (), h7)"
      and c8: "distillation_cleanup s p h7 = (Inr (), h8)"
      and c9: "performance_chart s h8 = (Inr u, h)"
    by (auto simp: distillation_notebook_def bind_Inr)
  have "lifecycle h0 = []" using c0 by auto
  moreover have "lifecycle h7 = lifecycle h6" using c7 by (auto simp: show_distillation_dashboard_def)
  moreover note silent_lifecycle [OF silent_cells(11) c1] silent_lifecycle [OF silent_cells(1) c2]
    silent_lifecycle [OF silent_cells(7) c3] silent_lifecycle [OF silent_cells(8) c4]
    deploy_cells(5) [OF c5] silent_lifecycle [OF silent_cells(9) c6] cleanup_cells(2) [OF c8]
    silent_lifecycle [OF silent_cells(10) c9]
  ultimately have "lifecycle h = [Up p, Down p]" by simp
  then show ?thesis by blast
qed

subsection \<open>Teardown\<close>

lemma down_in_lifecycle:
  "Down p \<in> set (lifecycle h) \<Longrightarrow> (DeleteEndpoint p, Returned) \<in> set h"
proof -
  assume "Down p \<in> set (lifecycle h)"
  then obtain ev where ev: "ev \<in> set h" "Down p \<in> set (lifecycle_of ev)"
    by (auto simp: lifecycle_def)
  then have "ev = (DeleteEndpoint p, Returned)"
    by (cases ev rule: lifecycle_of.cases) auto
  with ev show ?thesis by simp
qed

lemma torn_down_tail: "torn_down (lifecycle_of ev @ l) \<Longrightarrow> torn_down l"
  by (cases ev rule: lifecycle_of.cases) auto

lemma torn_down_after:
  assumes "torn_down (lifecycle (h1 @ (Deploy model as kw, Created p) # h2))"
  shows "(DeleteEndpoint p, Returned) \<in> set h2"
  using assms
proof (induction h1)
  case Nil
  then show ?case by (simp add: down_in_lifecycle)
next
  case (Cons ev h1)
  then show ?case by (auto dest: torn_down_tail)
qed

lemma notebooks_torn_down:
  assumes "nb \<in> set notebooks" and "nb s [] = (Inr (), h)"
  shows "torn_down (lifecycle h)"
proof -
  from assms(1) consider "nb = autoscaling_notebook" | "nb = inference_options_notebook"
    | "nb = distillation_notebook"
    by (auto simp: notebooks_def)
  then show ?thesis
  proof cases
    case 1
    with assms(2) lifecycle_autoscaling [of s h] show ?thesis by auto
  next
    case 2
    with assms(2) lifecycle_inference_options [of s "()" h] show ?thesis by auto
  next
    case 3
    with assms(2) lifecycle_distillation [of s "()" h] show ?thesis by auto
  qed
qed

text \<open>
  Claim C5. In a complete run of any of the three notebooks, every deployment that
  returned a predictor is followed, later in the run, by a \<open>delete_endpoint\<close> on
  that predictor that returned.
\<close>

theorem every_endpoint_is_deleted:
  assumes "nb \<in> set notebooks"
    and "nb s [] = (Inr (), h1 @ (Deploy model as kw, Created p) # h2)"
  shows "(DeleteEndpoint p, Returned) \<in> set h2"
  using notebooks_torn_down [OF assms] by (rule torn_down_after)

lemma inference_options_sample:
  "\<exists>h1 h2. inference_options_notebook sample_sdk [] =
      (Inr (), h1 @ (Deploy (PyObj ''HuggingFaceModel'' []) []
             [(''serverless_inference_config'', PyObj ''ServerlessInferenceConfig'' []),
              (''serializer'', PyObj ''DataSerializer'' [])],
           Created \<lparr>endpoint_name = ''endpoint-iiiiiiiiiiiiiiiiiiiiiiiiiiiiiiiiiiiii'',
                    sagemaker_session = \<lparr>boto_region_name = ''eu-west-1''\<rparr>\<rparr>)
         # h2)
      \<and> h2 = [(Shell ''wget https://cdn-media.huggingface.co/speech_samples/sample1.flac'', Returned),
          (Predict \<lparr>endpoint_name = ''endpoint-iiiiiiiiiiiiiiiiiiiiiiiiiiiiiiiiiiiii'',
                    sagemaker_session = \<lparr>boto_region_name = ''eu-west-1''\<rparr>\<rparr> audio_path, Returned),
          (Print [PyList []], Returned),
          (DeleteModel \<lparr>endpoint_name = ''endpoint-iiiiiiiiiiiiiiiiiiiiiiiiiiiiiiiiiiiii'',
                    sagemaker_session = \<lparr>boto_region_name = ''eu-west-1''\<rparr>\<rparr>, Returned),
          (DeleteEndpoint \<lparr>endpoint_name = ''endpoint-iiiiiiiiiiiiiiiiiiiiiiiiiiiiiiiiiiiii'',
                    sagemaker_session = \<lparr>boto_region_name = ''eu-west-1''\<rparr>\<rparr>, Returned)]"
  by (simp add: inference_options_notebook_def inference_options_cells prog_defs sample_sdk_def)


theorem every_endpoint_is_deleted_witness:
  "(DeleteEndpoint \<lparr>endpoint_name = ''endpoint-iiiiiiiiiiiiiiiiiiiiiiiiiiiiiiiiiiiii'',
                    sagemaker_session = \<lparr>boto_region_name = ''eu-west-1''\<rparr>\<rparr>, Returned)
   \<in> set [(Shell ''wget https://cdn-media.huggingface.co/speech_samples/sample1.flac'', Returned),
          (Predict \<lparr>endpoint_name = ''endpoint-iiiiiiiiiiiiiiiiiiiiiiiiiiiiiiiiiiiii'',
                    sagemaker_session = \<lparr>boto_region_name = ''eu-west-1''\<rparr>\<rparr> audio_path, Returned),
          (Print [PyList []], Returned),
          (DeleteModel \<lparr>endpoint_name = ''endpoint-iiiiiiiiiiiiiiiiiiiiiiiiiiiiiiiiiiiii'',
                    sagemaker_session = \<lparr>boto_region_name = ''eu-west-1''\<rparr>\<rparr>, Returned),
          (DeleteEndpoint \<lparr>endpoint_name = ''endpoint-iiiiiiiiiiiiiiiiiiiiiiiiiiiiiiiiiiiii'',
                    sagemaker_session = \<lparr>boto_region_name = ''eu-west-1''\<rparr>\<rparr>, Returned)]"
proof -
  have nb: "inference_options_notebook \<in> set notebooks" by (simp add: notebooks_def)
  from inference_options_sample obtain h1 h2 where
    run: "inference_options_notebook sample_sdk [] =
      (Inr (), h1 @ (Deploy (PyObj ''HuggingFaceModel'' []) []
             [(''serverless_inference_config'', PyObj ''ServerlessInferenceConfig'' []),
              (''serializer'', PyObj ''DataSerializer'' [])],
           Created \<lparr>endpoint_name = ''endpoint-iiiiiiiiiiiiiiiiiiiiiiiiiiiiiiiiiiiii'',
                    sagemaker_session = \<lparr>boto_region_name = ''eu-west-1''\<rparr>\<rparr>)
         # h2)"
    and h2: "h2 = [(Shell ''wget https://cdn-media.huggingface.co/speech_samples/sample1.flac'', Returned),
          (Predict \<lparr>endpoint_name = ''endpoint-iiiiiiiiiiiiiiiiiiiiiiiiiiiiiiiiiiiii'',
                    sagemaker_session = \<lparr>boto_region_name = ''eu-west-1''\<rparr>\<rparr> audio_path, Returned),
          (Print [PyList []], Returned),
          (DeleteModel \<lparr>endpoint_name = ''endpoint-iiiiiiiiiiiiiiiiiiiiiiiiiiiiiiiiiiiii'',
                    sagemaker_session = \<lparr>boto_region_name = ''eu-west-1''\<rparr>\<rparr>, Returned),
          (DeleteEndpoint \<lparr>endpoint_name = ''endpoint-iiiiiiiiiiiiiiiiiiiiiiiiiiiiiiiiiiiii'',
                    sagemaker_session = \<lparr>boto_region_name = ''eu-west-1''\<rparr>\<rparr>, Returned)]"
    by blast
  from every_endpoint_is_deleted [OF nb run] show ?thesis
    unfolding h2 .
qed

subsection \<open>Request payloads\<close>

lemma requests_ok_append:
  "requests_ok h (t1 @ t2) \<longleftrightarrow> requests_ok h t1 \<and> requests_ok (h @ t1) t2"
  by (induction t1 arbitrary: h) auto

lemma requests_okD:
  "requests_ok h t \<Longrightarrow> t = t1 @ ev # t2 \<Longrightarrow> request_ok (h @ t1) ev"
  by (simp add: requests_ok_append)

lemma requests_ok_json: "list_all payload_ok t \<Longrightarrow> requests_ok h t"
  by (induction t arbitrary: h) (auto simp: request_ok_def payload_ok_def split: option.splits)

lemma last_deployment_append [simp]:
  "last_deployment (h @ t) =
     (case last_deployment t of Some e \<Rightarrow> Some e | None \<Rightarrow> last_deployment h)"
  by (induction h) (auto split: option.splits)

lemma no_serializer: "list_all json_request t \<Longrightarrow> calls_of ''DataSerializer'' t = []"
  by (induction t) (auto simp: calls_of_def json_request_def)

lemma call_of_other: "g \<noteq> f \<Longrightarrow> call_of f (Call g as kw, out) = []"
  by (cases out) auto

lemma bind_case_prod: "bind (case x of (a, b) \<Rightarrow> f a b) g = (case x of (a, b) \<Rightarrow> bind (f a b) g)"
  by (cases x) simp

lemma inference_options_split:
  "inference_options_notebook s =
     bind (bind (install_sagemaker ''2.48.0'') (\<lambda>_.
           bind (setup_session s) (\<lambda>(role, sagemaker_session_bucket).
           bind (deploy_rth s role) (\<lambda>predictor_rth.
           bind (request_rth s predictor_rth) (\<lambda>_.
           bind (cleanup s predictor_rth) (\<lambda>_.
           bind (deploy_rts3 s role) (\<lambda>predictor_rts3.
           bind (request_rts3 s predictor_rts3) (\<lambda>_.
           bind (cleanup s predictor_rts3) (\<lambda>_.
           bind (batch_transform s role sagemaker_session_bucket) (\<lambda>_.
           bind (deploy_async s role sagemaker_session_bucket) (\<lambda>async_predictor.
           bind (request_async s async_predictor) (\<lambda>_.
           bind (cleanup s async_predictor) (\<lambda>_.
           ret role)))))))))))))
       (\<lambda>role.
          bind (deploy_sls s role) (\<lambda>predictor_sls.
          bind (request_sls s predictor_sls) (\<lambda>_.
          cleanup s predictor_sls)))"
  unfolding inference_options_notebook_def
  by (simp only: bind_assoc bind_case_prod bind_ret)

lemma before_serverless:
  "emits json_request
     (bind (install_sagemaker ''2.48.0'') (\<lambda>_.
           bind (setup_session s) (\<lambda>(role, sagemaker_session_bucket).
           bind (deploy_rth s role) (\<lambda>predictor_rth.
           bind (request_rth s predictor_rth) (\<lambda>_.
           bind (cleanup s predictor_rth) (\<lambda>_.
           bind (deploy_rts3 s role) (\<lambda>predictor_rts3.
           bind (request_rts3 s predictor_rts3) (\<lambda>_.
           bind (cleanup s predictor_rts3) (\<lambda>_.
           bind (batch_transform s role sagemaker_session_bucket) (\<lambda>_.
           bind (deploy_async s role sagemaker_session_bucket) (\<lambda>async_predictor.
           bind (request_async s async_predictor) (\<lambda>_.
           bind (cleanup s async_predictor) (\<lambda>_.
           ret role)))))))))))))"
  unfolding inference_options_cells
  apply (simp only: normalise)
  apply (intro emits_rules)
  apply (simp_all add: json_request_def payload_ok_def data_rth_def data_rts3_def data_async_def
      call_of_other)
  done

lemma serverless_section:
  assumes "calls_of ''DataSerializer'' h = []"
  shows "\<exists>t. snd (bind (deploy_sls s role) (\<lambda>predictor_sls.
          bind (request_sls s predictor_sls) (\<lambda>_.
          cleanup s predictor_sls)) h) = h @ t \<and> requests_ok h t"
  using assms
  by (auto simp: deploy_sls_def request_sls_def cleanup_def HuggingFaceModel_4_17_def prog_defs
      request_ok_def serverless_audio_request_def calls_of_def
      split: sum.splits)

lemma requests_ok_bind:
  assumes "emits json_request m"
    and "\<And>x h. calls_of ''DataSerializer'' h = [] \<Longrightarrow> \<exists>t. snd (f x h) = h @ t \<and> requests_ok h t"
  shows "requests_ok [] (snd (bind m f []))"
proof -
  obtain r h where m: "m [] = (r, h)" by (cases "m []")
  from emitsD [OF assms(1) m] have json: "list_all json_request h" by simp
  then have "list_all payload_ok h" by (simp add: list_all_iff json_request_def)
  then have ok: "requests_ok [] h" by (rule requests_ok_json)
  show ?thesis
  proof (cases r)
    case (Inl e)
    with m ok show ?thesis by (simp add: bind_def)
  next
    case (Inr x)
    from assms(2) [OF no_serializer [OF json], of x] obtain t
      where "snd (f x h) = h @ t" "requests_ok h t" by blast
    with Inr m ok show ?thesis by (simp add: bind_def requests_ok_append)
  qed
qed

lemma inference_options_requests: "requests_ok [] (snd (inference_options_notebook s []))"
  unfolding inference_options_split
  by (rule requests_ok_bind) (rule before_serverless, rule serverless_section)

text \<open>
  Claim C2, as the code has it. In any run of any of the three notebooks, complete or
  not, the payload of every prediction (made by a cell or by a worker of the pool, or
  given to the pool as a task) is a JSON object with an \<open>inputs\<close> field and no field
  other than \<open>inputs\<close> and \<open>parameters\<close>, with one exception, in the
  inference-options notebook: the \<open>predict\<close> call on the serverless speech endpoint
  is given the path of the audio file. That call is on the predictor which the latest
  deployment before it returned, a deployment with the keywords
  \<open>serverless_inference_config\<close> and \<open>serializer\<close>, after the run's one
  \<open>DataSerializer(content_type='audio/x-audio')\<close>. So what the real-time and the
  asynchronous endpoints are sent is a JSON object.
\<close>

theorem predict_payloads:
  assumes "nb \<in> set notebooks" and "snd (nb s []) = h1 @ (c, out) # h2"
    and "payload_of c = Some d"
  shows "is_inference_payload d \<or> (nb = inference_options_notebook \<and> serverless_audio_request h1 c)"
proof -
  obtain r h where run: "nb s [] = (r, h)" by (cases "nb s []")
  with assms(2) have h: "h = h1 @ (c, out) # h2" by simp
  from assms(1) consider "nb = autoscaling_notebook" | "nb = inference_options_notebook"
    | "nb = distillation_notebook"
    by (auto simp: notebooks_def)
  then show ?thesis
  proof cases
    case 1
    with run emitsD [OF autoscaling_payloads, of s "[]" r h] h have "payload_ok (c, out)"
      by (auto simp: list_all_iff)
    with assms(3) show ?thesis by (simp add: payload_ok_def)
  next
    case 2
    from inference_options_requests [of s] assms(2) 2
    have "request_ok ([] @ h1) (c, out)" by (intro requests_okD) auto
    with assms(3) 2 show ?thesis by (simp add: request_ok_def)
  next
    case 3
    with run emitsD [OF distillation_payloads, of s "[]" r h] h have "payload_ok (c, out)"
      by (auto simp: list_all_iff)
    with assms(3) show ?thesis by (simp add: payload_ok_def)
  qed
qed

lemma inference_options_sample_audio:
  "(Predict \<lparr>endpoint_name = ''endpoint-iiiiiiiiiiiiiiiiiiiiiiiiiiiiiiiiiiiii'',
              sagemaker_session = \<lparr>boto_region_name = ''eu-west-1''\<rparr>\<rparr> audio_path, Returned)
   \<in> set (snd (inference_options_notebook sample_sdk []))"
  using inference_options_sample by auto

lemma inference_options_sample_rth:
  "(Predict \<lparr>endpoint_name = ''endpoint-iiiiiiiiii'',
              sagemaker_session = \<lparr>boto_region_name = ''eu-west-1''\<rparr>\<rparr> data_rth, Returned)
   \<in> set (snd (inference_options_notebook sample_sdk []))"
  by (simp add: inference_options_notebook_def inference_options_cells prog_defs sample_sdk_def)

lemma serverless_audio_requestD: "serverless_audio_request h (Predict p d) \<Longrightarrow> d = audio_path"
  unfolding serverless_audio_request_def by (erule audio_request.elims) auto

theorem predict_payloads_witness:
  "(\<exists>h1 h2. snd (inference_options_notebook sample_sdk []) =
      h1 @ (Predict \<lparr>endpoint_name = ''endpoint-iiiiiiiiii'',
              sagemaker_session = \<lparr>boto_region_name = ''eu-west-1''\<rparr>\<rparr> data_rth, Returned) # h2
      \<and> is_inference_payload data_rth)
   \<and> (\<exists>h1 h2. snd (inference_options_notebook sample_sdk []) =
      h1 @ (Predict \<lparr>endpoint_name = ''endpoint-iiiiiiiiiiiiiiiiiiiiiiiiiiiiiiiiiiiii'',
              sagemaker_session = \<lparr>boto_region_name = ''eu-west-1''\<rparr>\<rparr> audio_path, Returned) # h2
      \<and> serverless_audio_request h1
          (Predict \<lparr>endpoint_name = ''endpoint-iiiiiiiiiiiiiiiiiiiiiiiiiiiiiiiiiiiii'',
              sagemaker_session = \<lparr>boto_region_name = ''eu-west-1''\<rparr>\<rparr> audio_path))"
proof -
  have nb: "inference_options_notebook \<in> set notebooks" by (simp add: notebooks_def)
  let ?p = "\<lparr>endpoint_name = ''endpoint-iiiiiiiiii'',
              sagemaker_session = \<lparr>boto_region_name = ''eu-west-1''\<rparr>\<rparr>"
  let ?q = "\<lparr>endpoint_name = ''endpoint-iiiiiiiiiiiiiiiiiiiiiiiiiiiiiiiiiiiii'',
              sagemaker_session = \<lparr>boto_region_name = ''eu-west-1''\<rparr>\<rparr>"
  from split_list [OF inference_options_sample_rth] obtain h1 h2 where
    rth: "snd (inference_options_notebook sample_sdk []) = h1 @ (Predict ?p data_rth, Returned) # h2"
    by blast
  from split_list [OF inference_options_sample_audio] obtain g1 g2 where
    sls: "snd (inference_options_notebook sample_sdk []) = g1 @ (Predict ?q audio_path, Returned) # g2"
    by blast
  have "data_rth \<noteq> audio_path" by (simp add: data_rth_def audio_path_def)
  then have "\<not> serverless_audio_request h1 (Predict ?p data_rth)"
    by (auto dest: serverless_audio_requestD)
  with predict_payloads [OF nb rth] have a: "is_inference_payload data_rth" by simp
  have "\<not> is_inference_payload audio_path" by (simp add: audio_path_def)
  with predict_payloads [OF nb sls] have b: "serverless_audio_request g1 (Predict ?q audio_path)"
    by simp
  from rth a sls b show ?thesis by blast
qed

text \<open>
  Not every payload is a JSON object: in a run of the inference-options notebook the
  serverless endpoint is sent the string \<open>sample1.flac\<close>.
\<close>

theorem serverless_payload_is_a_file_path:
  "(Predict \<lparr>endpoint_name = ''endpoint-iiiiiiiiiiiiiiiiiiiiiiiiiiiiiiiiiiiii'',
              sagemaker_session = \<lparr>boto_region_name = ''eu-west-1''\<rparr>\<rparr> (PyStr ''sample1.flac''),
     Returned)
   \<in> set (snd (inference_options_notebook sample_sdk []))
   \<and> \<not> is_inference_payload (PyStr ''sample1.flac'')"
  using inference_options_sample_audio by (simp add: audio_path_def)

subsection \<open>The model after the cleanup\<close>

lemma distillation_never_deletes_model:
  "emits (\<lambda>ev. \<not> is_delete_model ev) (distillation_notebook s)"
  unfolding distillation_notebook_def distillation_cells
  apply (simp only: normalise)
  apply (intro emits_rules)
  apply simp_all
  done

lemma sample_distillation_cells:
  "fst (call sample_sdk f as kw h) \<noteq> Inl e"
  "\<exists>v. fst (setup_session sample_sdk h) = Inr v"
  "\<exists>v. fst (create_estimator sample_sdk role h) = Inr v"
  "fst (fit sample_sdk est h) = Inr ()"
  "\<exists>v. fst (deploy_student sample_sdk est h) = Inr v"
  "fst (measure_latency sample_sdk p h) = Inr ()"
  "fst (distillation_cleanup sample_sdk p h) = Inr ()"
  "fst (performance_chart sample_sdk h) = Inr ()"
  by (simp_all add: measure_latency_def sample_repeat_request)
    (simp_all add: setup_session_def resolve_role_def create_estimator_def fit_def
      deploy_student_def distillation_cleanup_def performance_chart_def
      prog_defs sample_sdk_def)

lemma returns_some: "\<exists>x. fst (m h) = Inr x \<Longrightarrow> \<exists>x h'. m (h::history) = (Inr x, h')"
  by (metis prod.collapse)

lemma distillation_notebook_sample: "\<exists>u h. distillation_notebook sample_sdk [] = (Inr u, h)"
  unfolding distillation_notebook_def
  apply (rule bind_returns, simp)
  apply (rule bind_returns, rule returns_some, simp add: call_def invoke_def sample_sdk_def)
  apply (rule bind_returns, rule returns_some, rule sample_distillation_cells)
  apply (simp only: split_paired_all prod.case)
  apply (rule bind_returns, rule returns_some, rule sample_distillation_cells)
  apply (rule bind_returns, rule fst_returns, rule sample_distillation_cells)
  apply (rule bind_returns, rule returns_some, rule sample_distillation_cells)
  apply (rule bind_returns, rule fst_returns, rule sample_distillation_cells)
  apply (rule bind_returns, simp add: show_distillation_dashboard_def)
  apply (rule bind_returns, rule fst_returns, rule sample_distillation_cells)
  apply (rule fst_returns, rule sample_distillation_cells)
  done

text \<open>
  Claim C6. The cleanup cell of the distillation notebook names \<open>delete_model\<close>
  without calling it: all the cell does is \<open>delete_endpoint\<close>; no run of that
  notebook ever calls \<open>delete_model\<close>; and in a complete run the endpoint comes up
  and goes down while the model is never deleted. The cleanup of the
  inference-options notebook starts with a call of \<open>delete_model\<close>, and in a
  complete run of that notebook each of the four endpoints has its model deleted and
  then goes down. (The cleanup of the autoscaling notebook deletes the endpoint only.)
\<close>

theorem distillation_cleanup_leaves_the_model:
  "map fst (drop (length h0) (snd (distillation_cleanup s p h0))) = [DeleteEndpoint p]
   \<and> (\<forall>ev \<in> set (snd (distillation_notebook s [])). \<not> is_delete_model ev)
   \<and> (distillation_notebook s [] = (Inr (), h) \<longrightarrow> (\<exists>q. lifecycle h = [Up q, Down q]))
   \<and> (\<exists>t. map fst (drop (length h0) (snd (cleanup s p h0))) = DeleteModel p # t)
   \<and> (inference_options_notebook s [] = (Inr (), h') \<longrightarrow>
        (\<exists>p1 p2 p3 p4. lifecycle h' =
           [Up p1, ModelDown p1, Down p1, Up p2, ModelDown p2, Down p2,
            Up p3, ModelDown p3, Down p3, Up p4, ModelDown p4, Down p4]))"
proof (intro conjI)
  show "map fst (drop (length h0) (snd (distillation_cleanup s p h0))) = [DeleteEndpoint p]"
    by (simp add: distillation_cleanup_def bind_def delete_endpoint_def invoke_def
        split: sum.splits)
  show "\<forall>ev \<in> set (snd (distillation_notebook s [])). \<not> is_delete_model ev"
    using emitsD [OF distillation_never_deletes_model, of s "[]"]
    by (cases "distillation_notebook s []") (auto simp: list_all_iff)
  show "distillation_notebook s [] = (Inr (), h) \<longrightarrow> (\<exists>q. lifecycle h = [Up q, Down q])"
    using lifecycle_distillation by blast
  show "\<exists>t. map fst (drop (length h0) (snd (cleanup s p h0))) = DeleteModel p # t"
    by (simp add: cleanup_def bind_def delete_model_def delete_endpoint_def invoke_def
        split: sum.splits)
  show "inference_options_notebook s [] = (Inr (), h') \<longrightarrow>
        (\<exists>p1 p2 p3 p4. lifecycle h' =
           [Up p1, ModelDown p1, Down p1, Up p2, ModelDown p2, Down p2,
            Up p3, ModelDown p3, Down p3, Up p4, ModelDown p4, Down p4])"
    using lifecycle_inference_options by blast
qed

theorem distillation_cleanup_leaves_the_model_witness:
  "(\<exists>h q. distillation_notebook sample_sdk [] = (Inr (), h) \<and> lifecycle h = [Up q, Down q])
   \<and> (\<exists>h p1 p2 p3 p4. inference_options_notebook sample_sdk [] = (Inr (), h) \<and> lifecycle h =
           [Up p1, ModelDown p1, Down p1, Up p2, ModelDown p2, Down p2,
            Up p3, ModelDown p3, Down p3, Up p4, ModelDown p4, Down p4])"
proof -
  from distillation_notebook_sample obtain h where
    kd: "distillation_notebook sample_sdk [] = (Inr (), h)" by auto
  from inference_options_sample obtain h' where
    io: "inference_options_notebook sample_sdk [] = (Inr (), h')" by blast
  from distillation_cleanup_leaves_the_model [of "[]" sample_sdk _ h h'] kd io
  show ?thesis by blast
qed

subsection \<open>Exceptions\<close>

lemma propagatesI:
  "(\<And>h. \<exists>t. snd (m h) = h @ t \<and>
        (quiet X t \<or> (\<exists>t0 c e. t = t0 @ [(c, Raised e)] \<and> fst (m h) = Inl e \<and> quiet X t0)))
   \<Longrightarrow> propagates X m"
  by (simp add: propagates_def)

lemma propagatesD:
  assumes "propagates X m" and "m h = (r, h')"
  obtains t where "h' = h @ t" and "quiet X t \<or> (\<exists>t0 c e. t = t0 @ [(c, Raised e)] \<and> r = Inl e \<and> quiet X t0)"
  using assms by (auto simp: propagates_def dest!: spec [of _ h])

lemma quiet_simps [simp]:
  "quiet X []"
  "quiet X (a @ b) \<longleftrightarrow> quiet X a \<and> quiet X b"
  "quiet X [(c, Returned)]"
  "quiet X [(c, Created p)]"
  "quiet X [(c, Raised e)] \<longleftrightarrow> X (c, Raised e)"
  by (auto simp: quiet_def)

lemma quiet_Cons: "quiet X (ev # t) \<longleftrightarrow> (is_raised ev \<longrightarrow> X ev) \<and> quiet X t"
  by (simp add: quiet_def)

lemma propagates_ret: "propagates X (ret x)"
  and propagates_raise: "propagates X (raise e)"
  and propagates_lift: "propagates X (lift r)"
  and propagates_discard: "propagates X (discard v)"
  by (simp_all add: propagates_def ret_def raise_def lift_def discard_def)

lemma propagates_invoke: "propagates X (invoke c f)"
proof (rule propagatesI)
  fix h
  show "\<exists>t. snd (invoke c f h) = h @ t \<and>
        (quiet X t \<or> (\<exists>t0 c' e. t = t0 @ [(c', Raised e)] \<and> fst (invoke c f h) = Inl e \<and> quiet X t0))"
  proof (cases "f h")
    case (Inl e)
    then have "snd (invoke c f h) = h @ [(c, Raised e)]" "fst (invoke c f h) = Inl e"
      by (simp_all add: invoke_def)
    then show ?thesis by (metis append_Nil quiet_simps(1))
  next
    case (Inr x)
    then have "snd (invoke c f h) = h @ [(c, Returned)]" by (simp add: invoke_def)
    then show ?thesis by (metis quiet_simps(3))
  qed
qed

lemma propagates_deploy: "propagates X (deploy s model as kw)"
proof (rule propagatesI)
  fix h
  let ?m = "deploy s model as kw"
  show "\<exists>t. snd (?m h) = h @ t \<and>
        (quiet X t \<or> (\<exists>t0 c' e. t = t0 @ [(c', Raised e)] \<and> fst (?m h) = Inl e \<and> quiet X t0))"
  proof (cases "sdk_deploy s h model as kw")
    case (Inl e)
    then have "snd (?m h) = h @ [(Deploy model as kw, Raised e)]" "fst (?m h) = Inl e"
      by (simp_all add: deploy_def)
    then show ?thesis by (metis append_Nil quiet_simps(1))
  next
    case (Inr p)
    then have "snd (?m h) = h @ [(Deploy model as kw, Created p)]" by (simp add: deploy_def)
    then show ?thesis by (metis quiet_simps(4))
  qed
qed

lemma propagates_bind:
  assumes "propagates X m" and "\<And>x. propagates X (f x)"
  shows "propagates X (bind m f)"
proof (rule propagatesI)
  fix h
  obtain r h1 where m: "m h = (r, h1)" by (cases "m h")
  from propagatesD [OF assms(1) m] obtain t1 where t1: "h1 = h @ t1"
    and q1: "quiet X t1 \<or> (\<exists>t0 c e. t1 = t0 @ [(c, Raised e)] \<and> r = Inl e \<and> quiet X t0)"
    by blast
  show "\<exists>t. snd (bind m f h) = h @ t \<and>
        (quiet X t \<or> (\<exists>t0 c e. t = t0 @ [(c, Raised e)] \<and> fst (bind m f h) = Inl e \<and> quiet X t0))"
  proof (cases r)
    case (Inl e)
    with m have "bind m f h = (Inl e, h1)" by (simp add: bind_def)
    with t1 q1 Inl show ?thesis by auto
  next
    case (Inr x)
    with q1 have q: "quiet X t1" by auto
    obtain r2 h2 where f: "f x h1 = (r2, h2)" by (cases "f x h1")
    from propagatesD [OF assms(2) f] obtain t2 where t2: "h2 = h1 @ t2"
      and q2: "quiet X t2 \<or> (\<exists>t0 c e. t2 = t0 @ [(c, Raised e)] \<and> r2 = Inl e \<and> quiet X t0)"
      by blast
    from Inr m f have b: "bind m f h = (r2, h2)" by (simp add: bind_def)
    from q2 show ?thesis
    proof
      assume "quiet X t2"
      with q b t1 t2 have "snd (bind m f h) = h @ (t1 @ t2) \<and> quiet X (t1 @ t2)" by simp
      then show ?thesis by blast
    next
      assume "\<exists>t0 c e. t2 = t0 @ [(c, Raised e)] \<and> r2 = Inl e \<and> quiet X t0"
      then obtain t0 c e where "t2 = t0 @ [(c, Raised e)]" "r2 = Inl e" "quiet X t0" by blast
      with q b t1 t2 have "snd (bind m f h) = h @ ((t1 @ t0) @ [(c, Raised e)])
          \<and> fst (bind m f h) = Inl e \<and> quiet X (t1 @ t0)" by simp
      then show ?thesis by blast
    qed
  qed
qed

lemma propagates_case_prod:
  assumes "\<And>a b. propagates X (f a b)"
  shows "propagates X (case x of (a, b) \<Rightarrow> f a b)"
  using assms by (cases x) simp

lemma propagates_if:
  assumes "propagates X m" and "propagates X n"
  shows "propagates X (if b then m else n)"
  using assms by simp

lemma propagates_for_range:
  assumes "\<And>s. propagates X (body s)"
  shows "propagates X (for_range n body s)"
proof (induction n arbitrary: s)
  case 0
  show ?case unfolding for_range.simps by (rule propagates_ret)
next
  case (Suc n)
  show ?case unfolding for_range.simps by (rule propagates_bind) (rule assms, rule Suc)
qed

lemma propagates_try_invoke:
  assumes "X (c, Raised exc)" and "propagates X handler"
  shows "propagates X (try_except (invoke c f) exc handler)"
proof (rule propagatesI)
  fix h
  let ?m = "try_except (invoke c f) exc handler"
  show "\<exists>t. snd (?m h) = h @ t \<and>
        (quiet X t \<or> (\<exists>t0 c' e. t = t0 @ [(c', Raised e)] \<and> fst (?m h) = Inl e \<and> quiet X t0))"
  proof (cases "f h")
    case (Inr x)
    then have "snd (?m h) = h @ [(c, Returned)]" by (simp add: try_except_def invoke_def)
    then show ?thesis by (metis quiet_simps(3))
  next
    case (Inl e)
    show ?thesis
    proof (cases "e = exc")
      case False
      with Inl have "snd (?m h) = h @ [(c, Raised e)]" "fst (?m h) = Inl e"
        by (simp_all add: try_except_def invoke_def)
      then show ?thesis by (metis append_Nil quiet_simps(1))
    next
      case True
      obtain r2 h2 where hd: "handler (h @ [(c, Raised exc)]) = (r2, h2)"
        by (cases "handler (h @ [(c, Raised exc)])")
      from propagatesD [OF assms(2) hd] obtain t2 where t2: "h2 = (h @ [(c, Raised exc)]) @ t2"
        and q2: "quiet X t2 \<or> (\<exists>t0 c e. t2 = t0 @ [(c, Raised e)] \<and> r2 = Inl e \<and> quiet X t0)"
        by blast
      from True Inl hd have b: "?m h = (r2, h2)" by (simp add: try_except_def invoke_def)
      from q2 show ?thesis
      proof
        assume "quiet X t2"
        with assms(1) b t2 have "snd (?m h) = h @ ([(c, Raised exc)] @ t2)
            \<and> quiet X ([(c, Raised exc)] @ t2)" by (simp add: quiet_Cons)
        then show ?thesis by blast
      next
        assume "\<exists>t0 c e. t2 = t0 @ [(c, Raised e)] \<and> r2 = Inl e \<and> quiet X t0"
        then obtain t0 c' e' where "t2 = t0 @ [(c', Raised e')]" "r2 = Inl e'" "quiet X t0" by blast
        with assms(1) b t2 have "snd (?m h) = h @ (([(c, Raised exc)] @ t0) @ [(c', Raised e')])
            \<and> fst (?m h) = Inl e' \<and> quiet X ([(c, Raised exc)] @ t0)"
          by (simp add: quiet_Cons)
        then show ?thesis by blast
      qed
    qed
  qed
qed

lemma emits_quiet:
  assumes "emits X m"
  shows "propagates X m"
proof (rule propagatesI)
  fix h
  obtain r h' where m: "m h = (r, h')" by (cases "m h")
  from emitsD [OF assms m] obtain t where "h' = h @ t" "list_all X t" by blast
  with m have "snd (m h) = h @ t \<and> quiet X t" by (auto simp: quiet_def list_all_iff)
  then show "\<exists>t. snd (m h) = h @ t \<and>
        (quiet X t \<or> (\<exists>t0 c e. t = t0 @ [(c, Raised e)] \<and> fst (m h) = Inl e \<and> quiet X t0))"
    by blast
qed

lemma propagates_load_test: "propagates worker_event (load_test s p d)"
  unfolding load_test_def shutdown_def
proof (intro propagates_bind)
  show "propagates worker_event (cpu_count s)"
    unfolding cpu_count_def by (rule propagates_invoke)
  show "\<And>n. propagates worker_event (lift (case n of None \<Rightarrow> Inl TypeError | Some c \<Rightarrow> Inr (int c * 5)))"
    by (rule propagates_lift)
  show "\<And>x. propagates worker_event (ret (200::nat))" by (rule propagates_ret)
  show "\<And>w. propagates worker_event (print [PyStr ''workers used for load test: '', PyInt w])"
    unfolding print_def by (rule propagates_invoke)
  show "\<And>w. propagates worker_event (ThreadPoolExecutor w)"
    unfolding ThreadPoolExecutor_def by (rule propagates_invoke)
  show "\<And>n ex. propagates worker_event (for_range n (submit p d) ex)"
    unfolding submit_def
    by (intro propagates_for_range propagates_bind propagates_invoke propagates_ret)
  show "\<And>ex. propagates worker_event (run_tasks s (work_queue ex))"
    by (rule emits_quiet, rule emits_run_tasks) simp
qed

lemmas propagates_rules = propagates_ret propagates_raise propagates_lift propagates_discard
  propagates_bind propagates_case_prod propagates_if propagates_for_range propagates_load_test
  propagates_deploy

lemma propagates_leaves:
  "propagates X (call s f as kw)" "propagates X (predict s p d)"
  "propagates X (delete_model s p)" "propagates X (delete_endpoint s p)"
  "propagates X (uuid4 s)" "propagates X (print ps)" "propagates X (shell cmd)"
  unfolding call_def predict_def delete_model_def delete_endpoint_def uuid4_def print_def
    shell_def
  by (rule propagates_invoke)+

lemma propagates_resolve_role: "propagates caught_role_error (resolve_role s)"
  unfolding resolve_role_def call_def [of s "''sagemaker.get_execution_role''"]
  by (rule propagates_try_invoke)
    (simp add: caught_role_error_def, intro propagates_rules propagates_leaves)

lemma autoscaling_propagates: "propagates worker_event (autoscaling_notebook s)"
  unfolding autoscaling_notebook_def autoscaling_cells
  by (intro propagates_rules propagates_leaves)

lemma inference_options_propagates:
  "propagates caught_role_error (inference_options_notebook s)"
  unfolding inference_options_notebook_def install_sagemaker_def setup_session_def
    HuggingFaceModel_4_17_def
    cleanup_def deploy_rth_def request_rth_def deploy_rts3_def request_rts3_def batch_transform_def
    deploy_async_def request_async_def deploy_sls_def request_sls_def
  by (intro propagates_rules propagates_leaves propagates_resolve_role)

lemma distillation_propagates: "propagates caught_role_error (distillation_notebook s)"
  unfolding distillation_notebook_def setup_session_def create_estimator_def fit_def
  deploy_student_def measure_latency_def repeat_request_def show_distillation_dashboard_def
  distillation_cleanup_def performance_chart_def
  by (intro propagates_rules propagates_leaves propagates_resolve_role)

text \<open>
  Claim C3, as the code has it. In any run of a notebook, an event that raised is the
  last event of the run and its exception is the outcome of the run, with two
  exceptions: in the inference-options and distillation notebooks, a \<open>ValueError\<close>
  of \<open>get_execution_role\<close>, which the configuration cell catches; and in the
  autoscaling notebook, what a prediction run by the pool raises, which stays in its
  future.
\<close>

theorem exceptions_propagate_but_for_the_role:
  assumes "(nb, X) \<in> set [(autoscaling_notebook, worker_event),
                          (inference_options_notebook, caught_role_error),
                          (distillation_notebook, caught_role_error)]"
    and "nb s [] = (r, h)" and "i < length h" and "h ! i = (c, Raised e)" and "\<not> X (h ! i)"
  shows "Suc i = length h \<and> r = Inl e"
proof -
  from assms(1) have "propagates X (nb s)"
    using autoscaling_propagates inference_options_propagates distillation_propagates by auto
  from propagatesD [OF this assms(2)] obtain t where t: "h = [] @ t"
    and q: "quiet X t \<or> (\<exists>t0 c e. t = t0 @ [(c, Raised e)] \<and> r = Inl e \<and> quiet X t0)"
    by blast
  from assms(4,5) have bad: "is_raised (h ! i) \<and> \<not> X (h ! i)" by simp
  from q show ?thesis
  proof
    assume "quiet X t"
    with t assms(3) bad show ?thesis by (auto simp: quiet_def list_all_length)
  next
    assume "\<exists>t0 c e. t = t0 @ [(c, Raised e)] \<and> r = Inl e \<and> quiet X t0"
    then obtain t0 c' e' where t0: "h = t0 @ [(c', Raised e')]" "r = Inl e'" "quiet X t0"
      using t by auto
    show ?thesis
    proof (cases "i < length t0")
      case True
      with t0 bad show ?thesis by (auto simp: quiet_def list_all_length nth_append)
    next
      case False
      with t0(1) assms(3) have "i = length t0" by simp
      with t0 assms(4) show ?thesis by simp
    qed
  qed
qed

lemma inference_options_local_run:
  "inference_options_notebook local_sdk [] =
    (Inl (OtherError ''ResourceLimitExceeded''),
     [(Shell (''pip install '' @ [CHR 0x22] @ ''sagemaker>=2.48.0'' @ [CHR 0x22] @ '' --upgrade''),
       Returned),
      (Call ''sagemaker.Session'' [] [], Returned),
      (Call ''default_bucket''
         [PyObj ''Session'' [(''boto_region_name'', PyStr ''eu-west-1'')]] [], Returned),
      (Call ''sagemaker.get_execution_role'' [] [], Raised ValueError),
      (Call ''boto3.client'' [PyStr ''iam''] [], Returned),
      (Call ''get_role'' [PyObj ''boto3.client'' []]
         [(''RoleName'', PyStr ''sagemaker_execution_role'')], Returned),
      (Call ''sagemaker.Session'' [] [(''default_bucket'', PyObj ''default_bucket'' [])],
       Returned),
      (Print [PyStr ''sagemaker role arn: '',
              PyStr ''arn:aws:iam::111122223333:role/sagemaker_execution_role''], Returned),
      (Call ''default_bucket''
         [PyObj ''Session'' [(''boto_region_name'', PyStr ''eu-west-1'')]] [], Returned),
      (Print [PyStr ''sagemaker bucket: '', PyObj ''default_bucket'' []], Returned),
      (Print [PyStr ''sagemaker session region: '', PyStr ''eu-west-1''], Returned),
      (Call ''HuggingFaceModel'' []
         [(''env'', PyDict
             [(''HF_MODEL_ID'', PyStr ''distilbert-base-uncased-distilled-squad''),
              (''HF_TASK'', PyStr ''question-answering'')]),
          (''role'', PyStr ''arn:aws:iam::111122223333:role/sagemaker_execution_role''),
          (''transformers_version'', PyStr ''4.17''),
          (''pytorch_version'', PyStr ''1.10''),
          (''py_version'', PyStr ''py38'')], Returned),
      (Deploy (PyObj ''HuggingFaceModel'' []) []
         [(''initial_instance_count'', PyInt 1), (''instance_type'', PyStr ''ml.g4dn.xlarge'')],
       Raised (OtherError ''ResourceLimitExceeded''))])"
  by (simp add: inference_options_notebook_def inference_options_cells prog_defs local_sdk_def sample_sdk_def)

theorem exceptions_propagate_but_for_the_role_witness:
  "Suc 12 = length (snd (inference_options_notebook local_sdk []))
   \<and> fst (inference_options_notebook local_sdk []) = Inl (OtherError ''ResourceLimitExceeded'')"
proof -
  have nb: "(inference_options_notebook, caught_role_error)
      \<in> set [(autoscaling_notebook, worker_event),
             (inference_options_notebook, caught_role_error),
             (distillation_notebook, caught_role_error)]"
    by simp
  have run: "inference_options_notebook local_sdk [] =
      (fst (inference_options_notebook local_sdk []), snd (inference_options_notebook local_sdk []))"
    by simp
  have len: "12 < length (snd (inference_options_notebook local_sdk []))"
    by (simp add: inference_options_local_run)
  have ev: "snd (inference_options_notebook local_sdk []) ! 12 =
      (Deploy (PyObj ''HuggingFaceModel'' []) []
         [(''initial_instance_count'', PyInt 1), (''instance_type'', PyStr ''ml.g4dn.xlarge'')],
       Raised (OtherError ''ResourceLimitExceeded''))"
    by (simp add: inference_options_local_run)
  have nx: "\<not> caught_role_error (snd (inference_options_notebook local_sdk []) ! 12)"
    by (simp add: ev caught_role_error_def)
  from exceptions_propagate_but_for_the_role [OF nb run len ev nx] show ?thesis .
qed

text \<open>
  An exception of a library call that is caught and recovered from: outside SageMaker
  \<open>get_execution_role\<close> raises \<open>ValueError\<close>, and the role is then read from IAM.
\<close>

theorem role_error_is_caught:
  "resolve_role local_sdk [] =
     (Inr (PyStr ''arn:aws:iam::111122223333:role/sagemaker_execution_role''),
      [(Call ''sagemaker.get_execution_role'' [] [], Raised ValueError),
       (Call ''boto3.client'' [PyStr ''iam''] [], Returned),
       (Call ''get_role'' [PyObj ''boto3.client'' []]
          [(''RoleName'', PyStr ''sagemaker_execution_role'')], Returned)])"
  by (simp add: resolve_role_def prog_defs local_sdk_def sample_sdk_def)

subsection \<open>The dashboard links\<close>

text \<open>
  Claim C7. For an endpoint in \<open>eu-west-1\<close>, the link that the distillation
  notebook prints points to \<open>us-east-1\<close> and names \<open>eu-west-1\<close> nowhere, where the
  link of the autoscaling notebook has the session's region.
\<close>

theorem distillation_dashboard_region_is_fixed:
  "prefix ''https://us-east-1.console.aws.amazon.com/cloudwatch/home?region=us-east-1#''
     (distillation_dashboard_url
        \<lparr>endpoint_name = ''student'', sagemaker_session = \<lparr>boto_region_name = ''eu-west-1''\<rparr>\<rparr>)
   \<and> \<not> sublist ''eu-west-1''
     (distillation_dashboard_url
        \<lparr>endpoint_name = ''student'', sagemaker_session = \<lparr>boto_region_name = ''eu-west-1''\<rparr>\<rparr>)
   \<and> prefix ''https://console.aws.amazon.com/cloudwatch/home?region=eu-west-1#''
     (latency_dashboard_url ''eu-west-1''
        \<lparr>endpoint_name = ''student'', sagemaker_session = \<lparr>boto_region_name = ''eu-west-1''\<rparr>\<rparr>)"
  by (simp add: distillation_dashboard_url_def latency_dashboard_url_def sublist_Cons_right
      prefix_Cons)

end
